theory Spec2Isabelle
  imports Complex_Main
begin

section \<open>Risk scorer (\<open>calculateRiskScore\<close>)\<close>

text \<open>
  JavaScript numbers are modelled as rationals throughout: the arithmetic of the source is
  exact in the model, and \<open>NaN\<close> and the infinities are not numbers of the model.
\<close>

record MarketData =
  rsi :: rat
  macd :: rat
  signal :: rat
  volume :: rat
  price :: rat

definition calculateRiskScore :: "MarketData \<Rightarrow> rat \<Rightarrow> rat" where
  "calculateRiskScore marketData sentimentScore =
     (let riskScore = 1 / 2;
          riskScore = (if rsi marketData > 70 then riskScore + 1 / 10
                       else if rsi marketData < 30 then riskScore - 1 / 10
                       else riskScore);
          riskScore = (if macd marketData > signal marketData then riskScore - 1 / 20
                       else riskScore + 1 / 20);
          riskScore = (if volume marketData > 1000000 then riskScore + 1 / 20 else riskScore);
          riskScore = riskScore + (sentimentScore - 1 / 2) * (1 / 5)
      in max 0 (min 1 riskScore))"

section \<open>Performance tracker (\<open>model-tracking.ts\<close>)\<close>

datatype ModelType = tapas | distilbert | flant5 | bart

text \<open>\<open>Omit<ModelPrediction, "id">\<close>, and \<open>ModelPrediction\<close> as its extension by the id.\<close>

record PredictionInput =
  p_timestamp :: rat
  p_modelType :: ModelType
  p_input :: string
  p_output :: string
  p_latency :: rat
  p_success :: bool
  p_error :: "string option"

record ModelPrediction = PredictionInput +
  p_id :: string

record ModelOutcome =
  o_predictionId :: string
  o_timestamp :: rat
  o_correct :: bool
  o_actualOutcome :: string
  o_notes :: "string option"

record ModelPerformanceMetrics =
  m_modelType :: ModelType
  totalPredictions :: nat
  successRate :: rat
  averageLatency :: rat
  accuracy :: "rat option"
  lastUsed :: rat
  errorRate :: rat

datatype ConnectionState = connected | disconnected | degraded | unknown

record ConnectionStatus =
  c_modelType :: ModelType
  c_status :: ConnectionState
  c_lastChecked :: rat
  c_responseTime :: rat
  c_errorMessage :: "string option"

record ModelPerformanceData =
  predictions :: "ModelPrediction list"
  outcomes :: "ModelOutcome list"
  metrics :: "ModelPerformanceMetrics list"
  connectionStatus :: "ConnectionStatus list"

definition serverStore0 :: ModelPerformanceData where
  "serverStore0 = \<lparr>predictions = [], outcomes = [], metrics = [], connectionStatus = []\<rparr>"

definition models :: "ModelType list" where
  "models = [tapas, distilbert, flant5, bart]"

definition initializeConnectionStatus :: "ConnectionStatus list" where
  "initializeConnectionStatus =
     map (\<lambda>model. \<lparr>c_modelType = model, c_status = unknown, c_lastChecked = 0,
                      c_responseTime = 0, c_errorMessage = None\<rparr>) models"

definition initializeMetrics :: "ModelPerformanceMetrics list" where
  "initializeMetrics =
     map (\<lambda>model. \<lparr>m_modelType = model, totalPredictions = 0, successRate = 0,
                      averageLatency = 0, accuracy = None, lastUsed = 0, errorRate = 0\<rparr>) models"

definition initializeStore :: "ModelPerformanceData \<Rightarrow> ModelPerformanceData" where
  "initializeStore s =
     (let s = (if connectionStatus s = [] then s\<lparr>connectionStatus := initializeConnectionStatus\<rparr>
               else s)
      in if metrics s = [] then s\<lparr>metrics := initializeMetrics\<rparr> else s)"

text \<open>\<open>Array.prototype.findIndex\<close>: \<open>None\<close> stands for \<open>-1\<close>.\<close>

fun findIndex :: "('a \<Rightarrow> bool) \<Rightarrow> 'a list \<Rightarrow> nat option" where
  "findIndex P [] = None"
| "findIndex P (x # xs) = (if P x then Some 0 else map_option Suc (findIndex P xs))"

text \<open>\<open>xs.slice(-n)\<close>: the last \<open>n\<close> elements, all of them when there are fewer.\<close>

definition sliceLast :: "nat \<Rightarrow> 'a list \<Rightarrow> 'a list" where
  "sliceLast n xs = drop (length xs - n) xs"

text \<open>The metric record written back by \<open>recordPrediction\<close> (the object literal of the source).\<close>

definition updatedMetric ::
  "ModelPerformanceMetrics \<Rightarrow> PredictionInput \<Rightarrow> ModelPerformanceMetrics" where
  "updatedMetric metric prediction =
     (let total = totalPredictions metric + 1;
          successCount = successRate metric * of_nat (totalPredictions metric)
                         + (if p_success prediction then 1 else 0);
          totalLatency = averageLatency metric * of_nat (totalPredictions metric)
                         + p_latency prediction
      in metric\<lparr>totalPredictions := total,
                successRate := successCount / of_nat total,
                averageLatency := totalLatency / of_nat total,
                lastUsed := p_timestamp prediction,
                errorRate := (of_nat total - successCount) / of_nat total\<rparr>)"

text \<open>
  \<open>recordPrediction\<close>. The id the source builds from the clock and the random generator is
  the argument \<open>newId\<close>; the function returns it with the updated store.
\<close>

definition recordPrediction ::
  "ModelPerformanceData \<Rightarrow> string \<Rightarrow> PredictionInput \<Rightarrow> string \<times> ModelPerformanceData" where
  "recordPrediction store newId prediction =
     (let s = initializeStore store;
          newPrediction = PredictionInput.extend prediction (ModelPrediction.fields newId);
          s = s\<lparr>predictions := predictions s @ [newPrediction]\<rparr>;
          s = (case findIndex (\<lambda>m. m_modelType m = p_modelType prediction) (metrics s) of
                 None \<Rightarrow> s
               | Some metricIndex \<Rightarrow>
                   s\<lparr>metrics := (metrics s)[metricIndex :=
                        updatedMetric (metrics s ! metricIndex) prediction]\<rparr>);
          s = (if length (predictions s) > 1000
               then s\<lparr>predictions := sliceLast 1000 (predictions s)\<rparr> else s)
      in (newId, s))"

definition recordOutcome :: "ModelPerformanceData \<Rightarrow> ModelOutcome \<Rightarrow> ModelPerformanceData" where
  "recordOutcome store outcome =
     (let s = initializeStore store;
          s = s\<lparr>outcomes := outcomes s @ [outcome]\<rparr>;
          s = (case find (\<lambda>p. p_id p = o_predictionId outcome) (predictions s) of
                 None \<Rightarrow> s
               | Some prediction \<Rightarrow>
                   (case findIndex (\<lambda>m. m_modelType m = p_modelType prediction) (metrics s) of
                      None \<Rightarrow> s
                    | Some metricIndex \<Rightarrow>
                        (let metric = metrics s ! metricIndex;
                             os = filter (\<lambda>oc. list_ex (\<lambda>p. p_id p = o_predictionId oc
                                     \<and> p_modelType p = p_modelType prediction) (predictions s))
                                    (outcomes s);
                             correctOutcomes = length (filter o_correct os)
                         in s\<lparr>metrics := (metrics s)[metricIndex :=
                               metric\<lparr>accuracy :=
                                 (if length os > 0
                                  then Some (of_nat correctOutcomes / of_nat (length os))
                                  else None)\<rparr>]\<rparr>)));
          s = (if length (outcomes s) > 1000
               then s\<lparr>outcomes := sliceLast 1000 (outcomes s)\<rparr> else s)
      in s)"

text \<open>
  \<open>updateConnectionStatus\<close>: the status of the capability is replaced by the given one,
  stamped with the clock reading \<open>now\<close>.
\<close>

definition updateConnectionStatus ::
  "ModelPerformanceData \<Rightarrow> ConnectionStatus \<Rightarrow> rat \<Rightarrow> ModelPerformanceData" where
  "updateConnectionStatus store status now =
     (let s = initializeStore store
      in case findIndex (\<lambda>c. c_modelType c = c_modelType status) (connectionStatus s) of
           None \<Rightarrow> s
         | Some i \<Rightarrow>
             s\<lparr>connectionStatus := (connectionStatus s)[i := status\<lparr>c_lastChecked := now\<rparr>]\<rparr>)"

definition clearAllData :: ModelPerformanceData where
  "clearAllData =
     \<lparr>predictions = [], outcomes = [], metrics = initializeMetrics,
      connectionStatus = initializeConnectionStatus\<rparr>"

definition getModelMetrics ::
  "ModelPerformanceData \<Rightarrow> ModelType \<Rightarrow> ModelPerformanceMetrics option" where
  "getModelMetrics store modelType =
     find (\<lambda>m. m_modelType m = modelType) (metrics (initializeStore store))"

text \<open>A run of the tracker: the calls made so far, applied in order to the empty store.\<close>

datatype TrackerCall =
  RecordPrediction string PredictionInput
| RecordOutcome ModelOutcome
| UpdateConnectionStatus ConnectionStatus rat
| ClearAllData

fun trackerStep :: "ModelPerformanceData \<Rightarrow> TrackerCall \<Rightarrow> ModelPerformanceData" where
  "trackerStep s (RecordPrediction newId prediction) = snd (recordPrediction s newId prediction)"
| "trackerStep s (RecordOutcome outcome) = recordOutcome s outcome"
| "trackerStep s (UpdateConnectionStatus status now) = updateConnectionStatus s status now"
| "trackerStep s ClearAllData = clearAllData"

definition trackerRun :: "TrackerCall list \<Rightarrow> ModelPerformanceData" where
  "trackerRun calls = foldl trackerStep serverStore0 calls"

text \<open>
  What was handed to the tracker since the data was last cleared, in call order, whether
  still retained or not.
\<close>

fun notePrediction :: "ModelPrediction list \<Rightarrow> TrackerCall \<Rightarrow> ModelPrediction list" where
  "notePrediction ps (RecordPrediction newId prediction) =
     ps @ [PredictionInput.extend prediction (ModelPrediction.fields newId)]"
| "notePrediction ps (RecordOutcome outcome) = ps"
| "notePrediction ps (UpdateConnectionStatus status now) = ps"
| "notePrediction ps ClearAllData = []"

fun noteOutcome :: "ModelOutcome list \<Rightarrow> TrackerCall \<Rightarrow> ModelOutcome list" where
  "noteOutcome os (RecordPrediction newId prediction) = os"
| "noteOutcome os (RecordOutcome outcome) = os @ [outcome]"
| "noteOutcome os (UpdateConnectionStatus status now) = os"
| "noteOutcome os ClearAllData = []"

definition recordedPredictions :: "TrackerCall list \<Rightarrow> ModelPrediction list" where
  "recordedPredictions calls = foldl notePrediction [] calls"

definition recordedOutcomes :: "TrackerCall list \<Rightarrow> ModelOutcome list" where
  "recordedOutcomes calls = foldl noteOutcome [] calls"

definition predictionCount :: "ModelType \<Rightarrow> TrackerCall list \<Rightarrow> nat" where
  "predictionCount t calls =
     length (filter (\<lambda>p. p_modelType p = t) (recordedPredictions calls))"

definition successfulCount :: "ModelType \<Rightarrow> TrackerCall list \<Rightarrow> nat" where
  "successfulCount t calls =
     length (filter (\<lambda>p. p_modelType p = t \<and> p_success p) (recordedPredictions calls))"

text \<open>
  The invariant of the metric table after the calls \<open>calls\<close>: one entry per capability, in
  the order of \<open>models\<close>, each counting the predictions recorded for its capability.
\<close>

definition metricOK :: "TrackerCall list \<Rightarrow> ModelPerformanceMetrics \<Rightarrow> bool" where
  "metricOK calls m \<longleftrightarrow>
     totalPredictions m = predictionCount (m_modelType m) calls \<and>
     (1 \<le> totalPredictions m \<longrightarrow>
        successRate m = of_nat (successfulCount (m_modelType m) calls)
                        / of_nat (predictionCount (m_modelType m) calls) \<and>
        successRate m + errorRate m = 1)"

definition metricsInv :: "TrackerCall list \<Rightarrow> ModelPerformanceMetrics list \<Rightarrow> bool" where
  "metricsInv calls ms \<longleftrightarrow>
     map m_modelType ms = models \<and> (\<forall>i < length ms. metricOK calls (ms ! i))"

section \<open>JavaScript strings and numbers\<close>

text \<open>
  Strings are lists of characters and are taken to be ASCII: case mapping touches the
  letters A to Z only, and white space is the ASCII white space of \<open>\s\<close> and \<open>trim\<close>
  (space, tab, line feed, vertical tab, form feed, carriage return).
\<close>

definition newline :: char where
  "newline = CHR 0x0A"

definition isSpace :: "char \<Rightarrow> bool" where
  "isSpace c \<longleftrightarrow> c \<in> set [CHR '' '', CHR 0x09, CHR 0x0A, CHR 0x0B, CHR 0x0C, CHR 0x0D]"

definition isDigit :: "char \<Rightarrow> bool" where
  "isDigit c \<longleftrightarrow> c \<in> set ''0123456789''"

definition toLowerChar :: "char \<Rightarrow> char" where
  "toLowerChar c =
     (case map_of (zip ''ABCDEFGHIJKLMNOPQRSTUVWXYZ'' ''abcdefghijklmnopqrstuvwxyz'') c of
        Some l \<Rightarrow> l | None \<Rightarrow> c)"

definition toUpperChar :: "char \<Rightarrow> char" where
  "toUpperChar c =
     (case map_of (zip ''abcdefghijklmnopqrstuvwxyz'' ''ABCDEFGHIJKLMNOPQRSTUVWXYZ'') c of
        Some u \<Rightarrow> u | None \<Rightarrow> c)"

definition toLowerCase :: "string \<Rightarrow> string" where
  "toLowerCase s = map toLowerChar s"

definition toUpperCase :: "string \<Rightarrow> string" where
  "toUpperCase s = map toUpperChar s"

text \<open>\<open>s.startsWith(p)\<close>: \<open>p\<close> is a prefix of \<open>s\<close>.\<close>

fun startsWith :: "string \<Rightarrow> string \<Rightarrow> bool" where
  "startsWith s [] = True"
| "startsWith [] (p # ps) = False"
| "startsWith (c # cs) (p # ps) = (c = p \<and> startsWith cs ps)"

text \<open>\<open>s.includes(sub)\<close>: \<open>sub\<close> occurs in \<open>s\<close> as a contiguous substring.\<close>

fun includesStr :: "string \<Rightarrow> string \<Rightarrow> bool" where
  "includesStr [] sub = (sub = [])"
| "includesStr (c # cs) sub = (startsWith (c # cs) sub \<or> includesStr cs sub)"

definition trim :: "string \<Rightarrow> string" where
  "trim s = rev (dropWhile isSpace (rev (dropWhile isSpace s)))"

text \<open>\<open>xs.join(sep)\<close>.\<close>

fun joinWith :: "string \<Rightarrow> string list \<Rightarrow> string" where
  "joinWith sep [] = []"
| "joinWith sep [x] = x"
| "joinWith sep (x # y # ys) = x @ sep @ joinWith sep (y # ys)"

text \<open>
  \<open>s.split(re)\<close> for a regular expression that matches a maximal non-empty run of the
  characters satisfying \<open>sep\<close> (\<open>/[.!?]+/\<close>, \<open>/\s+/\<close>): the pieces between the runs, with an
  empty piece before a leading run and after a trailing one, and the one empty piece for
  the empty string. \<open>cur\<close> is the piece being read, reversed; \<open>inRun\<close> says that the
  previous character belonged to a separator run.
\<close>

fun splitRuns :: "(char \<Rightarrow> bool) \<Rightarrow> string \<Rightarrow> bool \<Rightarrow> string \<Rightarrow> string list" where
  "splitRuns sep cur inRun [] = [rev cur]"
| "splitRuns sep cur inRun (c # cs) =
     (if sep c then (if inRun then splitRuns sep cur True cs
                     else rev cur # splitRuns sep [] True cs)
      else splitRuns sep (c # cur) False cs)"

definition splitOn :: "(char \<Rightarrow> bool) \<Rightarrow> string \<Rightarrow> string list" where
  "splitOn sep s = splitRuns sep [] False s"

text \<open>Decimal rendering of a non-negative integer, as a template literal prints it.\<close>

definition digitChar :: "nat \<Rightarrow> char" where
  "digitChar d = ''0123456789'' ! (d mod 10)"

function showInt :: "int \<Rightarrow> string" where
  "showInt n = (if n < 10 then [digitChar (nat n)]
                else showInt (n div 10) @ [digitChar (nat (n mod 10))])"
  by pat_completeness auto
termination
  by (relation "measure nat") auto

declare showInt.simps [simp del]

definition showNat :: "nat \<Rightarrow> string" where
  "showNat n = showInt (int n)"

text \<open>
  A JavaScript number that may be \<open>NaN\<close>: \<open>None\<close> is \<open>NaN\<close>, and every comparison with it
  is false.
\<close>

type_synonym number = "rat option"

definition gt :: "number \<Rightarrow> number \<Rightarrow> bool" where
  "gt a b = (case (a, b) of (Some x, Some y) \<Rightarrow> x > y | _ \<Rightarrow> False)"

definition lt :: "number \<Rightarrow> number \<Rightarrow> bool" where
  "lt a b = (case (a, b) of (Some x, Some y) \<Rightarrow> x < y | _ \<Rightarrow> False)"

definition digitValue :: "char \<Rightarrow> int" where
  "digitValue c =
     (case map_of (zip ''0123456789'' [0, 1, 2, 3, 4, 5, 6, 7, 8, 9]) c of
        Some i \<Rightarrow> i | None \<Rightarrow> 0)"

definition digitsValue :: "string \<Rightarrow> int" where
  "digitsValue ds = foldl (\<lambda>a d. 10 * a + digitValue d) 0 ds"

text \<open>
  \<open>Number.parseFloat\<close> on a string of digits, dots and minus signs (what the patterns of
  the source capture): an optional sign, then the longest prefix of the form digits,
  digits-dot-digits or dot-digits; \<open>NaN\<close> when that prefix has no digit. The value is the
  exact decimal, where JavaScript takes the nearest double.
\<close>

definition parseUnsigned :: "string \<Rightarrow> number" where
  "parseUnsigned s =
     (let ip = takeWhile isDigit s;
          r = dropWhile isDigit s;
          fp = (case r of c # r' \<Rightarrow> if c = CHR ''.'' then takeWhile isDigit r' else [] | [] \<Rightarrow> [])
      in if ip = [] \<and> fp = [] then None
         else Some (of_int (digitsValue ip) + of_int (digitsValue fp) / 10 ^ length fp))"

definition parseFloat :: "string \<Rightarrow> number" where
  "parseFloat s =
     (case dropWhile isSpace s of
        [] \<Rightarrow> None
      | c # r \<Rightarrow> if c = CHR ''-'' then map_option uminus (parseUnsigned r)
                 else if c = CHR ''+'' then parseUnsigned r
                 else parseUnsigned (c # r))"

text \<open>
  \<open>x.toFixed(d)\<close>: the decimal with \<open>d\<close> fractional digits nearest to \<open>x\<close>, the larger one
  on a tie, after the sign.
\<close>

definition padLeft :: "nat \<Rightarrow> string \<Rightarrow> string" where
  "padLeft n s = replicate (n - length s) CHR ''0'' @ s"

definition toFixed :: "nat \<Rightarrow> rat \<Rightarrow> string" where
  "toFixed d x =
     (let n = \<lfloor>\<bar>x\<bar> * 10 ^ d + 1 / 2\<rfloor>;
          body = (if d = 0 then showInt n
                  else showInt (n div 10 ^ d) @ ''.'' @ padLeft d (showInt (n mod 10 ^ d)))
      in (if x < 0 then ''-'' else '''') @ body)"

text \<open>
  \<open>String(x)\<close> for a number: \<open>NaN\<close>, or the decimal expansion with the sign. The
  fractional digits stop when the expansion ends, or after 20 of them; JavaScript prints
  the shortest decimal that reads back as the same double, which is this expansion for
  the numbers with a short finite one.
\<close>

fun fractionDigits :: "nat \<Rightarrow> rat \<Rightarrow> string" where
  "fractionDigits 0 r = []"
| "fractionDigits (Suc fuel) r =
     (if r = 0 then []
      else digitChar (nat \<lfloor>r * 10\<rfloor>) # fractionDigits fuel (r * 10 - of_int \<lfloor>r * 10\<rfloor>))"

definition showRat :: "rat \<Rightarrow> string" where
  "showRat x =
     (let a = \<bar>x\<bar>; ip = \<lfloor>a\<rfloor>; fp = a - of_int \<lfloor>a\<rfloor>
      in (if x < 0 then ''-'' else '''') @ showInt ip
         @ (if fp = 0 then [] else ''.'' @ fractionDigits 20 fp))"

definition numberToString :: "number \<Rightarrow> string" where
  "numberToString x = (case x of None \<Rightarrow> ''NaN'' | Some q \<Rightarrow> showRat q)"

section \<open>Execution gate (\<open>TradingService.executeTrade\<close>)\<close>

text \<open>
  An awaited call either throws (with the message of the error) or returns a value.
\<close>

datatype 'a attempt = Threw string | Returned 'a

record RiskParameters =
  maxPositionSize :: rat
  maxLeverage :: rat
  stopLossPercent :: rat
  takeProfitPercent :: rat
  maxDailyLoss :: rat
  maxDrawdownPercent :: rat

text \<open>
  \<open>TradingConfig\<close>, with the fields the spot service reads (the futures-only fields are
  not read by it).
\<close>

record TradingConfig =
  enabled :: bool
  testMode :: bool
  riskParameters :: RiskParameters
  allowedSymbols :: "string list"

record AccountBalance =
  asset :: string
  free :: rat
  locked :: rat
  total :: rat

record MarketOrder =
  mo_symbol :: string
  mo_side :: string
  mo_quantity :: rat

text \<open>\<open>StopLossOrder\<close> and \<open>TakeProfitOrder\<close> have the same fields.\<close>

record StopOrder =
  so_symbol :: string
  so_side :: string
  so_quantity :: rat
  so_stopPrice :: rat
  so_price :: rat

record Order =
  ord_id :: string
  ord_symbol :: string
  ord_side :: string
  ord_type :: string
  ord_status :: string
  ord_quantity :: rat
  ord_price :: "rat option"
  ord_stopPrice :: "rat option"
  ord_executedQty :: rat
  ord_executedPrice :: "rat option"
  ord_timestamp :: int
  ord_clientOrderId :: "string option"

record TradeExecutionResult =
  success :: bool
  orderId :: "string option"
  errorMessage :: "string option"
  order :: "Order option"

text \<open>
  The exchange client is the environment of the gate: its replies are given, and every
  method the gate invokes on it is appended to a log of calls. \<open>balancesForRiskCheck\<close>
  answers the \<open>getBalances\<close> of \<open>checkRiskParameters\<close>, \<open>balancesForTrade\<close> the one of
  \<open>executeTrade\<close> itself.
\<close>

datatype ApiCall =
  GetBalances
| GetCurrentPrice string
| PlaceMarketOrder MarketOrder
| PlaceStopLossOrder StopOrder
| PlaceTakeProfitOrder StopOrder

record Exchange =
  balancesForRiskCheck :: "AccountBalance list attempt"
  balancesForTrade :: "AccountBalance list attempt"
  currentPriceReply :: "string \<Rightarrow> rat attempt"
  marketOrderReply :: "MarketOrder \<Rightarrow> TradeExecutionResult"
  stopLossReply :: "StopOrder \<Rightarrow> TradeExecutionResult attempt"
  takeProfitReply :: "StopOrder \<Rightarrow> TradeExecutionResult attempt"

record TradingService =
  config :: TradingConfig
  dailyPnL :: rat
  initialBalance :: rat
  currentDrawdown :: rat

definition failure :: "string \<Rightarrow> TradeExecutionResult" where
  "failure msg = \<lparr>success = False, orderId = None, errorMessage = Some msg, order = None\<rparr>"

definition calculatePositionSize :: "TradingService \<Rightarrow> rat \<Rightarrow> rat \<Rightarrow> rat" where
  "calculatePositionSize svc availableBalance confidence =
     (let positionSize = maxPositionSize (riskParameters (config svc));
          positionSize = positionSize * confidence;
          positionSize = min positionSize availableBalance
      in of_int \<lfloor>positionSize * 100\<rfloor> / 100)"

text \<open>
  \<open>checkRiskParameters\<close>: its verdict, the calls it makes, and the service with the
  drawdown it stores. An exception inside is caught and gives the verdict \<open>false\<close>.
\<close>

definition checkRiskParameters ::
  "TradingService \<Rightarrow> Exchange \<Rightarrow> bool \<times> ApiCall list \<times> TradingService" where
  "checkRiskParameters svc ex =
     (if dailyPnL svc < - maxDailyLoss (riskParameters (config svc)) then (False, [], svc)
      else
        (case balancesForRiskCheck ex of
           Threw e \<Rightarrow> (False, [GetBalances], svc)
         | Returned balances \<Rightarrow>
             (case find (\<lambda>b. asset b = ''USDT'') balances of
                Some usdtBalance \<Rightarrow>
                  (if initialBalance svc > 0 then
                     (let drawdown = 1 - total usdtBalance / initialBalance svc;
                          svc' = svc\<lparr>currentDrawdown := drawdown\<rparr>
                      in if drawdown > maxDrawdownPercent (riskParameters (config svc)) / 100
                         then (False, [GetBalances], svc')
                         else (True, [GetBalances], svc'))
                   else (True, [GetBalances], svc))
              | None \<Rightarrow> (True, [GetBalances], svc))))"

text \<open>
  \<open>placeStopLossAndTakeProfit\<close>: the calls it makes. A throwing stop-loss call skips the
  take-profit call; the exception is caught and logged.
\<close>

definition placeStopLossAndTakeProfit ::
  "TradingService \<Rightarrow> Exchange \<Rightarrow> string \<Rightarrow> string \<Rightarrow> rat \<Rightarrow> rat \<Rightarrow> ApiCall list" where
  "placeStopLossAndTakeProfit svc ex symbol side quantity entryPrice =
     (let stopLossPct = stopLossPercent (riskParameters (config svc)) / 100;
          takeProfitPct = takeProfitPercent (riskParameters (config svc)) / 100;
          long = (side = ''BUY'');
          stopLossPrice = (if long then entryPrice * (1 - stopLossPct)
                           else entryPrice * (1 + stopLossPct));
          takeProfitPrice = (if long then entryPrice * (1 + takeProfitPct)
                             else entryPrice * (1 - takeProfitPct));
          closeSide = (if long then ''SELL'' else ''BUY'');
          factor = (if long then 99 / 100 else 101 / 100);
          stopLossOrder = \<lparr>so_symbol = symbol, so_side = closeSide, so_quantity = quantity,
                           so_stopPrice = stopLossPrice, so_price = stopLossPrice * factor\<rparr>;
          takeProfitOrder = \<lparr>so_symbol = symbol, so_side = closeSide, so_quantity = quantity,
                             so_stopPrice = takeProfitPrice,
                             so_price = takeProfitPrice * factor\<rparr>
      in case stopLossReply ex stopLossOrder of
           Threw e \<Rightarrow> [PlaceStopLossOrder stopLossOrder]
         | Returned r \<Rightarrow> [PlaceStopLossOrder stopLossOrder, PlaceTakeProfitOrder takeProfitOrder])"

text \<open>
  The market order of \<open>executeTrade\<close> for \<open>BUY\<close> and \<open>SELL\<close>, followed by the protective
  orders when the entry succeeded and carries an order.
\<close>

definition placeEntry ::
  "TradingService \<Rightarrow> Exchange \<Rightarrow> string \<Rightarrow> string \<Rightarrow> rat \<Rightarrow> rat
     \<Rightarrow> TradeExecutionResult \<times> ApiCall list" where
  "placeEntry svc ex symbol side quantity currentPrice =
     (let marketOrder = \<lparr>mo_symbol = symbol, mo_side = side, mo_quantity = quantity\<rparr>;
          result = marketOrderReply ex marketOrder
      in case (success result, order result) of
           (True, Some ord) \<Rightarrow>
             (result, PlaceMarketOrder marketOrder
                # placeStopLossAndTakeProfit svc ex symbol side (ord_executedQty ord) currentPrice)
         | _ \<Rightarrow> (result, [PlaceMarketOrder marketOrder]))"

text \<open>
  \<open>executeTrade\<close>. The action is the string the caller passes (the route casts it without
  checking). \<open>clock k\<close> is the k-th reading of \<open>Date.now()\<close> during the call. The result
  comes with the log of exchange calls and the service afterwards.

  \<open>checkRiskParameters\<close> is called without \<open>await\<close>: the source negates the promise, which
  is never falsy, so its verdict is not looked at and only its calls and its stored
  drawdown remain. A current price of 0 makes the quantity infinite in JavaScript; the
  division of the model gives 0 there.
\<close>

definition executeTrade ::
  "TradingService \<Rightarrow> Exchange \<Rightarrow> (nat \<Rightarrow> int) \<Rightarrow> string \<Rightarrow> string \<Rightarrow> rat
     \<Rightarrow> TradeExecutionResult \<times> ApiCall list \<times> TradingService" where
  "executeTrade svc ex clock symbol action confidence =
     (if \<not> enabled (config svc) \<or> action = ''HOLD'' then
        (failure (if \<not> enabled (config svc) then ''Trading is disabled in configuration''
                  else ''Action is HOLD, no trade executed''), [], svc)
      else if symbol \<notin> set (allowedSymbols (config svc)) then
        (failure (''Symbol '' @ symbol @ '' is not in the allowed symbols list''), [], svc)
      else if testMode (config svc) then
        (\<lparr>success = True,
          orderId = Some (''test_'' @ showInt (clock 0)),
          errorMessage = None,
          order = Some \<lparr>ord_id = ''test_'' @ showInt (clock 1), ord_symbol = symbol,
                         ord_side = action, ord_type = ''MARKET'', ord_status = ''FILLED'',
                         ord_quantity = 0, ord_price = None, ord_stopPrice = None,
                         ord_executedQty = 0, ord_executedPrice = None,
                         ord_timestamp = clock 2, ord_clientOrderId = None\<rparr>\<rparr>, [], svc)
      else
        (let (verdict, calls1, svc1) = checkRiskParameters svc ex
         in case balancesForTrade ex of
              Threw e \<Rightarrow> (failure e, calls1 @ [GetBalances], svc1)
            | Returned balances \<Rightarrow>
                (case find (\<lambda>b. asset b = ''USDT'') balances of
                   None \<Rightarrow> (failure ''Insufficient USDT balance'', calls1 @ [GetBalances], svc1)
                 | Some usdtBalance \<Rightarrow>
                     if free usdtBalance \<le> 0 then
                       (failure ''Insufficient USDT balance'', calls1 @ [GetBalances], svc1)
                     else
                       (let positionSize = calculatePositionSize svc (free usdtBalance) confidence
                        in case currentPriceReply ex symbol of
                             Threw e \<Rightarrow>
                               (failure e, calls1 @ [GetBalances, GetCurrentPrice symbol], svc1)
                           | Returned currentPrice \<Rightarrow>
                               (let quantity = positionSize / currentPrice;
                                    calls2 = calls1 @ [GetBalances, GetCurrentPrice symbol]
                                in if action = ''BUY'' \<or> action = ''SELL'' then
                                     (let (result, calls3) =
                                            placeEntry svc ex symbol action quantity currentPrice
                                      in (result, calls2 @ calls3, svc1))
                                   else (failure ''Invalid action'', calls2, svc1))))))"

section \<open>Decision fallback (\<open>fallbackDecisionMaking\<close>)\<close>

text \<open>
  The two patterns the source tries for an indicator named \<open>key\<close>, at the start of \<open>s\<close>:
  \<open>/key:?\s*([cls]+)/\<close> and \<open>/key\s+(?:is|of|at|=)\s*([cls]+)/\<close>. Each gives the captured
  group. The character classes of the groups contain neither white space nor a colon, so
  the greedy match is the only one.
\<close>

definition capture :: "(char \<Rightarrow> bool) \<Rightarrow> string \<Rightarrow> string option" where
  "capture cls s = (let c = takeWhile cls s in if c = [] then None else Some c)"

definition matchColonAt :: "string \<Rightarrow> (char \<Rightarrow> bool) \<Rightarrow> string \<Rightarrow> string option" where
  "matchColonAt key cls s =
     (if startsWith s key then
        (let r = drop (length key) s;
             r = (case r of c # r' \<Rightarrow> if c = CHR '':'' then r' else r | [] \<Rightarrow> r)
         in capture cls (dropWhile isSpace r))
      else None)"

definition matchWordAt :: "string \<Rightarrow> (char \<Rightarrow> bool) \<Rightarrow> string \<Rightarrow> string option" where
  "matchWordAt key cls s =
     (if startsWith s key then
        (let r = drop (length key) s
         in if takeWhile isSpace r = [] then None
            else
              (let r = dropWhile isSpace r
               in if startsWith r ''is'' \<or> startsWith r ''of'' \<or> startsWith r ''at''
                  then capture cls (dropWhile isSpace (drop 2 r))
                  else if startsWith r ''='' then capture cls (dropWhile isSpace (drop 1 r))
                  else None))
      else None)"

text \<open>\<open>s.match(re)?.[1]\<close>: the group of the leftmost position where the pattern matches.\<close>

fun firstMatch :: "(string \<Rightarrow> string option) \<Rightarrow> string \<Rightarrow> string option" where
  "firstMatch m [] = m []"
| "firstMatch m (c # cs) = (case m (c # cs) of Some g \<Rightarrow> Some g | None \<Rightarrow> firstMatch m cs)"

definition isNumChar :: "char \<Rightarrow> bool" where
  "isNumChar c \<longleftrightarrow> isDigit c \<or> c = CHR ''.''"

definition isSignedNumChar :: "char \<Rightarrow> bool" where
  "isSignedNumChar c \<longleftrightarrow> c = CHR ''-'' \<or> isDigit c \<or> c = CHR ''.''"

text \<open>\<open>Number.parseFloat(m1?.[1] || m2?.[1] || dflt)\<close>; a captured group is never empty.\<close>

definition extractIndicator :: "string \<Rightarrow> (char \<Rightarrow> bool) \<Rightarrow> string \<Rightarrow> string \<Rightarrow> number" where
  "extractIndicator key cls dflt promptLower =
     parseFloat
       (case firstMatch (matchColonAt key cls) promptLower of
          Some g \<Rightarrow> g
        | None \<Rightarrow>
            (case firstMatch (matchWordAt key cls) promptLower of
               Some g \<Rightarrow> g
             | None \<Rightarrow> dflt))"

record Indicators =
  i_rsi :: number
  i_macd :: number
  i_signal :: number
  i_risk :: number

definition extractIndicators :: "string \<Rightarrow> Indicators" where
  "extractIndicators promptLower =
     \<lparr>i_rsi = extractIndicator ''rsi'' isNumChar ''50'' promptLower,
      i_macd = extractIndicator ''macd'' isSignedNumChar ''0'' promptLower,
      i_signal = extractIndicator ''signal'' isSignedNumChar ''0'' promptLower,
      i_risk = extractIndicator ''risk'' isNumChar ''0.5'' promptLower\<rparr>"

record MarketConditions =
  volatile :: bool
  trending :: bool
  uptrend :: bool
  downtrend :: bool
  sideways :: bool

definition detectConditions :: "string \<Rightarrow> MarketConditions" where
  "detectConditions promptLower =
     \<lparr>volatile = (includesStr promptLower ''volatile'' \<or> includesStr promptLower ''volatility''),
      trending = (includesStr promptLower ''trending'' \<or> includesStr promptLower ''trend''),
      uptrend = (includesStr promptLower ''uptrend'' \<or> includesStr promptLower ''bullish''),
      downtrend = (includesStr promptLower ''downtrend'' \<or> includesStr promptLower ''bearish''),
      sideways = (includesStr promptLower ''sideways'' \<or> includesStr promptLower ''range'')\<rparr>"

text \<open>The names of the detected conditions, in the key order of the object.\<close>

definition detectedConditions :: "MarketConditions \<Rightarrow> string list" where
  "detectedConditions mc =
     map fst (filter snd
       [(''volatile'', volatile mc), (''trending'', trending mc), (''uptrend'', uptrend mc),
        (''downtrend'', downtrend mc), (''sideways'', sideways mc)])"

record DecisionResult =
  decision :: string
  d_reasoning :: string

text \<open>
  The rule cascade on the extracted indicators and conditions; \<open>reasoning\<close> is the text
  accumulated before it. Every rule that fires returns at once.
\<close>

definition decide :: "Indicators \<Rightarrow> MarketConditions \<Rightarrow> string \<Rightarrow> DecisionResult" where
  "decide ind mc reasoning =
     (if gt (i_risk ind) (Some (7 / 10)) then
        \<lparr>decision = ''HOLD'',
         d_reasoning = reasoning
           @ ''- High risk level (> 0.7) detected, recommending HOLD as a conservative approach''
           @ [newline]\<rparr>
      else if gt (i_rsi ind) (Some 70) then
        \<lparr>decision = ''SELL'',
         d_reasoning = reasoning
           @ ''- RSI > 70 indicates overbought conditions, suggesting SELL'' @ [newline]\<rparr>
      else if lt (i_rsi ind) (Some 30) then
        \<lparr>decision = ''BUY'',
         d_reasoning = reasoning
           @ ''- RSI < 30 indicates oversold conditions, suggesting BUY'' @ [newline]\<rparr>
      else
        (let bullish = (gt (i_macd ind) (Some 0) \<and> gt (i_macd ind) (i_signal ind));
             bearish = (lt (i_macd ind) (Some 0) \<and> lt (i_macd ind) (i_signal ind))
         in if bullish \<and> lt (i_risk ind) (Some (1 / 2)) then
              \<lparr>decision = ''BUY'',
               d_reasoning = reasoning
                 @ ''- MACD is positive and above signal line with acceptable risk, suggesting BUY''
                 @ [newline]\<rparr>
            else if \<not> bullish \<and> bearish then
              \<lparr>decision = ''SELL'',
               d_reasoning = reasoning
                 @ ''- MACD is negative and below signal line, suggesting SELL'' @ [newline]\<rparr>
            else
              (let reasoning =
                     (if bullish
                      then reasoning
                        @ ''- MACD is bullish but risk is elevated, continuing analysis''
                        @ [newline]
                      else reasoning)
               in if volatile mc \<and> gt (i_risk ind) (Some (1 / 2)) then
                    \<lparr>decision = ''HOLD'',
                     d_reasoning = reasoning
                       @ ''- Market is volatile with moderate to high risk, suggesting HOLD''
                       @ [newline]\<rparr>
                  else if uptrend mc \<and> lt (i_risk ind) (Some (6 / 10)) then
                    \<lparr>decision = ''BUY'',
                     d_reasoning = reasoning
                       @ ''- Market is in uptrend with acceptable risk, suggesting BUY''
                       @ [newline]\<rparr>
                  else if downtrend mc then
                    \<lparr>decision = ''SELL'',
                     d_reasoning = reasoning
                       @ ''- Market is in downtrend, suggesting SELL'' @ [newline]\<rparr>
                  else if sideways mc then
                    \<lparr>decision = ''HOLD'',
                     d_reasoning = reasoning
                       @ ''- Market is moving sideways, suggesting HOLD'' @ [newline]\<rparr>
                  else
                    \<lparr>decision = ''HOLD'',
                     d_reasoning = reasoning
                       @ ''- No strong signals detected, defaulting to HOLD'' @ [newline]\<rparr>)))"

definition fallbackDecisionMaking :: "string \<Rightarrow> DecisionResult" where
  "fallbackDecisionMaking prompt =
     (let promptLower = toLowerCase prompt;
          reasoning = ''Trading decision reasoning:'' @ [newline];
          indicators = extractIndicators promptLower;
          reasoning = reasoning @ ''- Extracted indicators: RSI='' @ numberToString (i_rsi indicators)
            @ '', MACD='' @ numberToString (i_macd indicators)
            @ '', Signal='' @ numberToString (i_signal indicators)
            @ '', Risk='' @ numberToString (i_risk indicators) @ [newline];
          marketConditions = detectConditions promptLower;
          detected = detectedConditions marketConditions;
          reasoning =
            (if length detected > 0
             then reasoning @ ''- Detected market conditions: '' @ joinWith '', '' detected
                  @ [newline]
             else reasoning @ ''- No specific market conditions detected'' @ [newline])
      in decide indicators marketConditions reasoning)"

section \<open>Sentiment fallback (\<open>fallbackSentimentAnalysis\<close>)\<close>

record SentimentResult =
  score :: rat
  s_reasoning :: string

definition positiveKeywords :: "(string \<times> rat) list" where
  "positiveKeywords =
     [(''bullish'', 8 / 10), (''uptrend'', 7 / 10), (''buy'', 6 / 10), (''growth'', 6 / 10),
      (''increase'', 5 / 10), (''gain'', 5 / 10), (''profit'', 5 / 10), (''positive'', 5 / 10),
      (''strong'', 4 / 10), (''opportunity'', 4 / 10), (''support'', 3 / 10),
      (''recovery'', 3 / 10), (''momentum'', 3 / 10)]"

definition negativeKeywords :: "(string \<times> rat) list" where
  "negativeKeywords =
     [(''bearish'', 8 / 10), (''downtrend'', 7 / 10), (''sell'', 6 / 10), (''decline'', 6 / 10),
      (''decrease'', 5 / 10), (''loss'', 5 / 10), (''negative'', 5 / 10), (''weak'', 4 / 10),
      (''risk'', 4 / 10), (''resistance'', 3 / 10), (''correction'', 3 / 10),
      (''volatile'', 3 / 10)]"

text \<open>The keywords of a list that occur in the text, with their weights, in list order.\<close>

definition matchedKeywords :: "(string \<times> rat) list \<Rightarrow> string \<Rightarrow> (string \<times> rat) list" where
  "matchedKeywords kws lowerText = filter (\<lambda>(word, weight). includesStr lowerText word) kws"

definition fallbackSentimentAnalysis :: "string \<Rightarrow> SentimentResult" where
  "fallbackSentimentAnalysis text =
     (let lowerText = toLowerCase text;
          matchedPositive = matchedKeywords positiveKeywords lowerText;
          matchedNegative = matchedKeywords negativeKeywords lowerText;
          positiveScore = sum_list (map snd matchedPositive);
          negativeScore = sum_list (map snd matchedNegative);
          totalWeight = positiveScore + negativeScore
      in if totalWeight = 0 then
           \<lparr>score = 1 / 2,
            s_reasoning =
              ''No clear sentiment indicators found in the text. Assigning neutral sentiment.''\<rparr>
         else
           (let sc = positiveScore / (positiveScore + negativeScore);
                reasoning = ''Sentiment analysis based on keyword matching:'' @ [newline];
                reasoning =
                  (if length matchedPositive > 0
                   then reasoning @ ''- Positive indicators: ''
                        @ joinWith '', '' (map fst matchedPositive) @ [newline]
                   else reasoning);
                reasoning =
                  (if length matchedNegative > 0
                   then reasoning @ ''- Negative indicators: ''
                        @ joinWith '', '' (map fst matchedNegative) @ [newline]
                   else reasoning);
                reasoning = reasoning @ ''- Overall sentiment: ''
                  @ (if sc < 4 / 10 then ''Negative'' else if sc > 6 / 10 then ''Positive''
                     else ''Neutral'')
                  @ '' ('' @ toFixed 1 (sc * 100) @ ''%)''
            in \<lparr>score = sc, s_reasoning = reasoning\<rparr>))"

section \<open>Summarization fallback (\<open>fallbackSummarization\<close>)\<close>

record SummaryResult =
  summary :: string
  b_reasoning :: string

definition isTerminator :: "char \<Rightarrow> bool" where
  "isTerminator c \<longleftrightarrow> c \<in> set ''.!?''"

text \<open>\<open>text.split(/[.!?]+/).filter((s) => s.trim().length > 0)\<close>\<close>

definition sentencesOf :: "string \<Rightarrow> string list" where
  "sentencesOf text = filter (\<lambda>s. length (trim s) > 0) (splitOn isTerminator text)"

text \<open>\<open>sentence.toLowerCase().split(/\s+/)\<close>\<close>

definition wordsOf :: "string \<Rightarrow> string list" where
  "wordsOf sentence = splitOn isSpace (toLowerCase sentence)"

definition stopWords :: "string list" where
  "stopWords = [''the'', ''and'', ''that'', ''this'', ''with'', ''for'', ''was'', ''were'',
                ''from'', ''have'', ''has'']"

text \<open>
  The word-frequency object is the object literal \<open>{}\<close>: besides the members the loop
  stores, a member access finds the members of \<open>Object.prototype\<close>. The words looked up
  are in lower case, and two inherited members have a name in lower case: \<open>constructor\<close>,
  the function \<open>Object\<close>, and the accessor \<open>__proto__\<close>, which reads as \<open>Object.prototype\<close>.
  So the values met are a count, a string (what \<open>+\<close> makes of a value that is not a
  number), the function \<open>Object\<close> and the object \<open>Object.prototype\<close>; \<open>undefined\<close> is the
  \<open>None\<close> of a member access.
\<close>

datatype jsValue = Count nat | Text string | ObjectFunction | ObjectPrototype

text \<open>
  The own members of the word-frequency object: its keys with their values, in insertion
  order.
\<close>

type_synonym wordFrequency = "(string \<times> jsValue) list"

record ScoredSentence =
  sentence :: string
  sscore :: number
  index :: nat

text \<open>
  What ECMAScript leaves to the implementation, as far as this function meets it:
  \<^item> \<open>nativeObjectSource\<close>, the source text \<open>Function.prototype.toString\<close> gives for the
    built-in function \<open>Object\<close>. Its syntax is that of a native function,
    \<open>function Object() { [native code] }\<close>; the white space in it is the implementation's.
  \<^item> \<open>sortEntries\<close> and \<open>sortSentences\<close>, the order in which \<open>Array.prototype.sort\<close> leaves
    the entries of the word-frequency object and the scored sentences when the comparison
    function is not a consistent one.
\<close>

record Engine =
  nativeObjectSource :: string
  sortEntries :: "(string \<times> jsValue) list \<Rightarrow> (string \<times> jsValue) list"
  sortSentences :: "ScoredSentence list \<Rightarrow> ScoredSentence list"

text \<open>Truthiness, as \<open>||\<close> and \<open>if\<close> test it.\<close>

fun truthy :: "jsValue \<Rightarrow> bool" where
  "truthy (Count c) = (c \<noteq> 0)"
| "truthy (Text s) = (s \<noteq> [])"
| "truthy ObjectFunction = True"
| "truthy ObjectPrototype = True"

text \<open>
  The string of a value, in a concatenation and in a template literal: the digits of a
  count, the source text of the function \<open>Object\<close>, and \<open>[object Object]\<close> for
  \<open>Object.prototype\<close>.
\<close>

fun toStringValue :: "Engine \<Rightarrow> jsValue \<Rightarrow> string" where
  "toStringValue engine (Count c) = showNat c"
| "toStringValue engine (Text s) = s"
| "toStringValue engine ObjectFunction = nativeObjectSource engine"
| "toStringValue engine ObjectPrototype = ''[object Object]''"

text \<open>\<open>a + b\<close>: the sum of two numbers, and the concatenation of the strings otherwise.\<close>

fun addValues :: "Engine \<Rightarrow> jsValue \<Rightarrow> jsValue \<Rightarrow> jsValue" where
  "addValues engine (Count a) (Count b) = Count (a + b)"
| "addValues engine a b = Text (toStringValue engine a @ toStringValue engine b)"

text \<open>
  The number of a string: a string of decimal digits is its value, and a string with a
  character that no numeric literal has (a bracket, the letter \<open>u\<close>) is \<open>NaN\<close>. The other
  numeric literals (with a sign, a fraction, an exponent, a radix prefix, white space
  around, \<open>Infinity\<close>) do not arise: every string converted here holds the source text of
  \<open>Object\<close> or \<open>[object Object]\<close>.
\<close>

definition stringToNumber :: "string \<Rightarrow> number" where
  "stringToNumber s = (if list_all isDigit s then Some (of_int (digitsValue s)) else None)"

fun toNumber :: "Engine \<Rightarrow> jsValue \<Rightarrow> number" where
  "toNumber engine (Count c) = Some (of_nat c)"
| "toNumber engine v = stringToNumber (toStringValue engine v)"

text \<open>\<open>wordFrequency[word]\<close>, read: the own member, or else the inherited one.\<close>

definition getMember :: "wordFrequency \<Rightarrow> string \<Rightarrow> jsValue option" where
  "getMember freq word =
     (case map_of freq word of
        Some v \<Rightarrow> Some v
      | None \<Rightarrow> if word = ''constructor'' then Some ObjectFunction
                else if word = ''__proto__'' then Some ObjectPrototype
                else None)"

text \<open>
  \<open>wordFrequency[word] = v\<close>: the own member is updated in place, or added after the
  others. The accessor \<open>__proto__\<close> ignores the numbers and strings assigned here, and no
  own member is made.
\<close>

fun setOwn :: "wordFrequency \<Rightarrow> string \<Rightarrow> jsValue \<Rightarrow> wordFrequency" where
  "setOwn [] word v = [(word, v)]"
| "setOwn ((w, u) # freq) word v =
     (if w = word then (w, v) # freq else (w, u) # setOwn freq word v)"

definition setMember :: "wordFrequency \<Rightarrow> string \<Rightarrow> jsValue \<Rightarrow> wordFrequency" where
  "setMember freq word v = (if word = ''__proto__'' then freq else setOwn freq word v)"

text \<open>\<open>wordFrequency[word] || 0\<close>\<close>

definition orZero :: "jsValue option \<Rightarrow> jsValue" where
  "orZero m = (case m of Some v \<Rightarrow> if truthy v then v else Count 0 | None \<Rightarrow> Count 0)"

text \<open>
  \<open>if (word.length > 3 && !stopWords.includes(word))
     wordFrequency[word] = (wordFrequency[word] || 0) + 1\<close>
\<close>

definition countWord :: "Engine \<Rightarrow> wordFrequency \<Rightarrow> string \<Rightarrow> wordFrequency" where
  "countWord engine freq word =
     (if length word > 3 \<and> word \<notin> set stopWords
      then setMember freq word (addValues engine (orZero (getMember freq word)) (Count 1))
      else freq)"

definition countWords :: "Engine \<Rightarrow> string list \<Rightarrow> wordFrequency" where
  "countWords engine sentences =
     foldl (\<lambda>freq sentence. foldl (countWord engine) freq (wordsOf sentence)) [] sentences"

text \<open>
  \<open>Object.entries\<close>: the keys that are array indices first, in ascending numeric order,
  then the other keys in insertion order.
\<close>

definition isArrayIndex :: "string \<Rightarrow> bool" where
  "isArrayIndex w \<longleftrightarrow>
     w \<noteq> [] \<and> list_all isDigit w \<and> (w = ''0'' \<or> hd w \<noteq> CHR ''0'')
     \<and> digitsValue w < 4294967295"

definition objectEntries :: "wordFrequency \<Rightarrow> wordFrequency" where
  "objectEntries freq =
     sort_key (\<lambda>e. digitsValue (fst e)) (filter (\<lambda>e. isArrayIndex (fst e)) freq)
     @ filter (\<lambda>e. \<not> isArrayIndex (fst e)) freq"

text \<open>
  \<open>xs.sort((a, b) => key(b) - key(a))\<close>. The sort is stable, and a comparison that gives
  \<open>NaN\<close> counts as a tie. With numbers for all keys the result is the stable sort by
  descending key. With a key that is \<open>NaN\<close> the element ties with every other one: if the
  keys that are numbers are all equal, every comparison is a tie and the array stays as
  it is; if two of them differ, the comparison function is not consistent (the two tie
  with the \<open>NaN\<close> element and not with each other) and the order is the implementation's,
  \<open>engineSort\<close>.
\<close>

definition sortDescending :: "('a list \<Rightarrow> 'a list) \<Rightarrow> ('a \<Rightarrow> number) \<Rightarrow> 'a list \<Rightarrow> 'a list" where
  "sortDescending engineSort key xs =
     (if list_all (\<lambda>x. key x \<noteq> None) xs
      then sort_key (\<lambda>x. case key x of Some k \<Rightarrow> - k | None \<Rightarrow> 0) xs
      else if length (remdups (List.map_filter key xs)) \<le> 1 then xs
      else engineSort xs)"

text \<open>
  The score of a sentence. \<open>if (wordFrequency[word]) score += wordFrequency[word]\<close> for
  each of its words (\<open>acc\<close> is the running \<open>score\<close>), then \<open>score / words.length\<close>: a
  score that has become a string is converted back to a number by the division.
\<close>

definition addWord :: "Engine \<Rightarrow> wordFrequency \<Rightarrow> jsValue \<Rightarrow> string \<Rightarrow> jsValue" where
  "addWord engine freq acc word =
     (case getMember freq word of
        Some v \<Rightarrow> if truthy v then addValues engine acc v else acc
      | None \<Rightarrow> acc)"

definition sentenceScore :: "Engine \<Rightarrow> wordFrequency \<Rightarrow> string \<Rightarrow> number" where
  "sentenceScore engine freq s =
     map_option (\<lambda>q. q / of_nat (length (wordsOf s)))
       (toNumber engine (foldl (addWord engine freq) (Count 0) (wordsOf s)))"

definition sentenceScores :: "Engine \<Rightarrow> wordFrequency \<Rightarrow> string list \<Rightarrow> ScoredSentence list" where
  "sentenceScores engine freq sentences =
     map (\<lambda>(i, s). \<lparr>sentence = s, sscore = sentenceScore engine freq s, index = i\<rparr>)
       (zip [0 ..< length sentences] sentences)"

text \<open>\<open>Math.min(3, Math.ceil(sentences.length / 3))\<close>\<close>

definition numSentences :: "nat \<Rightarrow> nat" where
  "numSentences n = min 3 (nat \<lceil>(of_nat n :: rat) / 3\<rceil>)"

text \<open>
  The sentences kept for a text of more than two sentences: the first \<open>numSentences\<close> of
  the scored sentences sorted by descending score.
\<close>

definition topSentences :: "Engine \<Rightarrow> string list \<Rightarrow> ScoredSentence list" where
  "topSentences engine sentences =
     take (numSentences (length sentences))
       (sortDescending (sortSentences engine) sscore
          (sentenceScores engine (countWords engine sentences) sentences))"

text \<open>\<open>s.score.toFixed(2)\<close>\<close>

definition scoreToFixed :: "number \<Rightarrow> string" where
  "scoreToFixed x = (case x of None \<Rightarrow> ''NaN'' | Some q \<Rightarrow> toFixed 2 q)"

definition fallbackSummarization :: "Engine \<Rightarrow> string \<Rightarrow> SummaryResult" where
  "fallbackSummarization engine text =
     (let sentences = sentencesOf text;
          reasoning = ''Summarization reasoning:'' @ [newline]
      in if length sentences = 0 then
           \<lparr>summary = ''No content to summarize.'',
            b_reasoning = reasoning @ ''- No content to summarize'' @ [newline]\<rparr>
         else if length sentences = 1 then
           \<lparr>summary = trim (sentences ! 0),
            b_reasoning = reasoning
              @ ''- Text contains only one sentence, returning as is'' @ [newline]\<rparr>
         else if length sentences > 2 then
           (let reasoning = reasoning @ ''- Text contains '' @ showNat (length sentences)
                  @ '' sentences, using frequency-based extraction'' @ [newline];
                freq = countWords engine sentences;
                reasoning = reasoning @ ''- Identified '' @ showNat (length freq)
                  @ '' unique keywords'' @ [newline];
                topKeywords =
                  map (\<lambda>(word, count). word @ '' ('' @ toStringValue engine count @ '')'')
                    (take 5 (sortDescending (sortEntries engine) (\<lambda>e. toNumber engine (snd e))
                       (objectEntries freq)));
                reasoning = reasoning @ ''- Top keywords: '' @ joinWith '', '' topKeywords
                  @ [newline];
                top = topSentences engine sentences;
                reasoning = reasoning @ ''- Selected top ''
                  @ showNat (numSentences (length sentences))
                  @ '' sentences by relevance score'' @ [newline];
                reasoning = reasoning @ ''- Sentence scores: ''
                  @ joinWith '', ''
                      (map (\<lambda>s. ''#'' @ showNat (index s + 1) @ '' (''
                                 @ scoreToFixed (sscore s) @ '')'') top)
                  @ [newline];
                top = sort_key index top;
                summ = joinWith ''. '' (map (\<lambda>item. trim (sentence item)) top) @ ''.'';
                reasoning = reasoning
                  @ ''- Arranged selected sentences in original order for coherence''
                  @ [newline]
            in \<lparr>summary = summ, b_reasoning = reasoning\<rparr>)
         else
           \<lparr>summary = trim (sentences ! 0) @ ''. ''
                       @ trim (sentences ! (length sentences - 1)) @ ''.'',
            b_reasoning = reasoning
              @ ''- Text is short, using first and last sentence extraction'' @ [newline]\<rparr>)"

subsection \<open>The relevance of a sentence, as the specification words it\<close>

text \<open>
  The words that count: those of more than three characters that are no stop word.
\<close>

definition counted :: "string \<Rightarrow> bool" where
  "counted w \<longleftrightarrow> length w > 3 \<and> w \<notin> set stopWords"

text \<open>The number of times a word occurs in the sentences of the text.\<close>

definition occurrences :: "string list \<Rightarrow> string \<Rightarrow> nat" where
  "occurrences sentences w = count_list (concat (map wordsOf sentences)) w"

text \<open>
  The relevance of a sentence: the occurrences in the text of each of its words that
  counts, summed over its words and divided by the number of its words.
\<close>

definition relevance :: "string list \<Rightarrow> string \<Rightarrow> rat" where
  "relevance sentences s =
     of_nat (sum_list (map (\<lambda>w. if counted w then occurrences sentences w else 0) (wordsOf s)))
     / of_nat (length (wordsOf s))"




section \<open>Remote analysis calls (\<open>queryTapas\<close>, \<open>queryDistilBERT\<close>, \<open>queryFLANT5\<close>, \<open>queryBART\<close>)\<close>

text \<open>
  The remote services are the environment of the pipeline. A reply is \<open>None\<close> when the
  call failed in any way (no token, time-out, bad status, wrong content type, malformed
  body) and the payload otherwise. The records the query functions write to the
  performance tracker are not part of this model of the pipeline. The parameter \<open>engine\<close>
  is the JavaScript engine, which the summarization fallback depends on.
\<close>

record TapasResponse =
  tr_answer :: string
  tr_coordinates :: "nat list list option"
  tr_cells :: "string list option"
  tr_aggregator :: "string option"

record Remote =
  hfApiToken :: string
  tapasPrimaryReply :: "TapasResponse option"
  tapasAlternativeReply :: "TapasResponse option"
  tapasLastResortReply :: "TapasResponse option"
  distilbertReply :: "(string \<times> rat) list list option"
  deepseekHuggingFaceReply :: "string option"
  deepseekApiReply :: "string option"
  bartReply :: "string option"

text \<open>\<open>queryHuggingFace\<close>: without a token every call fails before it is sent.\<close>

definition queryHuggingFace :: "Remote \<Rightarrow> 'a option \<Rightarrow> 'a option" where
  "queryHuggingFace env reply = (if hfApiToken env = [] then None else reply)"

record TableResult =
  answer :: string
  t_reasoning :: string

text \<open>
  \<open>fallbackTableAnalysis\<close>: the intent of the query is detected by keywords, in the order
  of the source. What the source computes once an intent is detected (the column search
  and the maximum, minimum, average, RSI or MACD analysis, with their own ways of ending
  in the default answer) is the parameter \<open>intentAnalysis\<close>: the properties below hold
  whatever it returns. A query without intent gets the default answer.
\<close>

type_synonym tableAnalysis = "string \<Rightarrow> (string \<times> string list) list \<Rightarrow> TableResult"

definition hasIntent :: "string \<Rightarrow> bool" where
  "hasIntent lowerQuery \<longleftrightarrow>
     (includesStr lowerQuery ''highest'' \<or> includesStr lowerQuery ''maximum''
        \<or> includesStr lowerQuery ''max'')
     \<or> (includesStr lowerQuery ''lowest'' \<or> includesStr lowerQuery ''minimum''
        \<or> includesStr lowerQuery ''min'')
     \<or> (includesStr lowerQuery ''average'' \<or> includesStr lowerQuery ''mean''
        \<or> includesStr lowerQuery ''avg'')
     \<or> (includesStr lowerQuery ''rsi''
        \<and> (includesStr lowerQuery ''buy'' \<or> includesStr lowerQuery ''sell''
           \<or> includesStr lowerQuery ''hold''))
     \<or> (includesStr lowerQuery ''macd''
        \<and> (includesStr lowerQuery ''buy'' \<or> includesStr lowerQuery ''sell''
           \<or> includesStr lowerQuery ''hold''))"

definition defaultTableResult :: TableResult where
  "defaultTableResult =
     \<lparr>answer = ''HOLD'',
      t_reasoning = ''Table analysis reasoning:'' @ [newline]
        @ ''- Could not determine specific analysis type from query'' @ [newline]
        @ ''- Defaulting to HOLD recommendation as a conservative approach'' @ [newline]\<rparr>"

definition fallbackTableAnalysis ::
  "tableAnalysis \<Rightarrow> string \<Rightarrow> (string \<times> string list) list \<Rightarrow> TableResult" where
  "fallbackTableAnalysis intentAnalysis query table =
     (if hasIntent (toLowerCase query) then intentAnalysis query table
      else defaultTableResult)"

definition tapasReasoning :: "string \<Rightarrow> TapasResponse \<Rightarrow> TableResult" where
  "tapasReasoning header response =
     (let reasoning = header @ [newline];
          selected = (case tr_coordinates response of Some cs \<Rightarrow> length cs > 0 | None \<Rightarrow> False);
          cellsText = (case tr_cells response of
                         Some cells \<Rightarrow> if joinWith '', '' cells = [] then ''N/A''
                                       else joinWith '', '' cells
                       | None \<Rightarrow> ''N/A'');
          aggregatorText = (case tr_aggregator response of
                              Some a \<Rightarrow> if a = [] then ''None'' else a
                            | None \<Rightarrow> ''None'');
          reasoning =
            (if selected
             then reasoning @ ''- Selected cells: '' @ cellsText @ [newline]
                  @ ''- Aggregation method: '' @ aggregatorText @ [newline]
                  @ ''- Final answer: '' @ tr_answer response @ [newline]
             else reasoning @ ''- Direct answer: '' @ tr_answer response @ [newline])
      in \<lparr>answer = tr_answer response, t_reasoning = reasoning\<rparr>)"

definition queryTapas ::
  "Remote \<Rightarrow> tableAnalysis \<Rightarrow> string \<Rightarrow> (string \<times> string list) list \<Rightarrow> TableResult" where
  "queryTapas env intentAnalysis query table =
     (case queryHuggingFace env (tapasPrimaryReply env) of
        Some response \<Rightarrow> tapasReasoning ''Table analysis from Tapas model:'' response
      | None \<Rightarrow>
          (case queryHuggingFace env (tapasAlternativeReply env) of
             Some response \<Rightarrow>
               tapasReasoning ''Table analysis from alternative Tapas model:'' response
           | None \<Rightarrow>
               (case queryHuggingFace env (tapasLastResortReply env) of
                  Some response \<Rightarrow>
                    tapasReasoning ''Table analysis from last resort Tapas model:'' response
                | None \<Rightarrow> fallbackTableAnalysis intentAnalysis query table)))"

definition queryDistilBERT :: "Remote \<Rightarrow> string \<Rightarrow> SentimentResult" where
  "queryDistilBERT env text =
     (case queryHuggingFace env (distilbertReply env) of
        None \<Rightarrow> fallbackSentimentAnalysis text
      | Some response \<Rightarrow>
          (let first = (case response of [] \<Rightarrow> [] | items # _ \<Rightarrow> items);
               positiveItem = find (\<lambda>item. fst item = ''POSITIVE'') first;
               negativeItem = find (\<lambda>item. fst item = ''NEGATIVE'') first;
               positiveScore = (case positiveItem of
                                  Some item \<Rightarrow> if snd item = 0 then 1 / 2 else snd item
                                | None \<Rightarrow> 1 / 2)
           in case (positiveItem, negativeItem) of
                (Some p, Some n) \<Rightarrow>
                  \<lparr>score = positiveScore,
                   s_reasoning = ''Sentiment analysis from DistilBERT model:'' @ [newline]
                     @ ''- Positive sentiment: '' @ toFixed 1 (snd p * 100) @ ''%'' @ [newline]
                     @ ''- Negative sentiment: '' @ toFixed 1 (snd n * 100) @ ''%'' @ [newline]
                     @ ''- Overall assessment: ''
                     @ (if positiveScore > 6 / 10 then ''Positive''
                        else if positiveScore < 4 / 10 then ''Negative'' else ''Neutral'')\<rparr>
              | _ \<Rightarrow>
                  \<lparr>score = positiveScore,
                   s_reasoning =
                     ''Sentiment analysis completed, but detailed scores unavailable.''\<rparr>))"

text \<open>
  The decision read from the first line of the model's answer; the answer itself is the
  reasoning.
\<close>

definition parseDecision :: "string \<Rightarrow> DecisionResult" where
  "parseDecision content =
     (let firstLine = toUpperCase (takeWhile (\<lambda>c. c \<noteq> newline) content)
      in \<lparr>decision = (if includesStr firstLine ''BUY'' then ''BUY''
                      else if includesStr firstLine ''SELL'' then ''SELL''
                      else ''HOLD''),
          d_reasoning = content\<rparr>)"

text \<open>
  \<open>queryDeepSeek\<close>: the Hugging Face endpoint first (an empty generated text counts as a
  failure), then the OpenAI-compatible endpoint, then the local fallback on the prompt.
\<close>

definition queryDeepSeek :: "Remote \<Rightarrow> string \<Rightarrow> DecisionResult" where
  "queryDeepSeek env prompt =
     (if hfApiToken env = [] then fallbackDecisionMaking prompt
      else
        (case (case deepseekHuggingFaceReply env of
                 Some generated \<Rightarrow> if generated = [] then None else Some generated
               | None \<Rightarrow> None) of
           Some generated \<Rightarrow> parseDecision (trim generated)
         | None \<Rightarrow>
             (case deepseekApiReply env of
                Some content \<Rightarrow> parseDecision (trim content)
              | None \<Rightarrow> fallbackDecisionMaking prompt)))"

definition queryFLANT5 :: "Remote \<Rightarrow> string \<Rightarrow> DecisionResult" where
  "queryFLANT5 env prompt = queryDeepSeek env prompt"

definition queryBART :: "Engine \<Rightarrow> Remote \<Rightarrow> string \<Rightarrow> SummaryResult" where
  "queryBART engine env text =
     (case queryHuggingFace env (bartReply env) of
        Some summary_text \<Rightarrow>
          \<lparr>summary = summary_text,
           b_reasoning = ''Summarization performed by BART model, which uses a neural network trained on millions of documents to extract key information while maintaining context and coherence.''\<rparr>
      | None \<Rightarrow> fallbackSummarization engine text)"

section \<open>Signal analysis pipeline (\<open>analyzeSignals\<close>) and its route (\<open>GET\<close>)\<close>

record NewsData =
  headlines :: "string list"
  summaries :: "string list"

record ModelResults =
  r_decision :: string
  riskScore :: rat
  tapasReasoning_r :: string
  sentimentReasoning :: string
  decisionReasoning :: string
  summaryReasoning :: string
  tapasUsingFallback :: bool
  sentimentUsingFallback :: bool
  decisionUsingFallback :: bool
  summaryUsingFallback :: bool

definition defaultResult :: ModelResults where
  "defaultResult =
     \<lparr>r_decision = ''HOLD'', riskScore = 1 / 2,
      tapasReasoning_r = ''Unable to analyze market data.'',
      sentimentReasoning = ''Unable to analyze news sentiment.'',
      decisionReasoning = ''Using default conservative position due to analysis errors.'',
      summaryReasoning = ''No summary available due to analysis errors.'',
      tapasUsingFallback = True, sentimentUsingFallback = True,
      decisionUsingFallback = True, summaryUsingFallback = True\<rparr>"

definition convertMarketDataToTable :: "MarketData \<Rightarrow> (string \<times> string list) list" where
  "convertMarketDataToTable marketData =
     [(''Indicator'', [''RSI'', ''MACD'', ''Signal'', ''Volume'', ''Price'']),
      (''Value'', [showRat (rsi marketData), showRat (macd marketData),
                  showRat (signal marketData), showRat (volume marketData),
                  showRat (price marketData)])]"

definition tapasQuery :: string where
  "tapasQuery = ''Based on the technical indicators, should I buy, sell, or hold?''"

definition newsText :: "NewsData \<Rightarrow> string" where
  "newsText newsData =
     joinWith '' '' (headlines newsData) @ '' '' @ joinWith '' '' (summaries newsData)"

text \<open>The prompt of the decision fallback when the pipeline calls it itself.\<close>

definition indicatorPrompt :: "MarketData \<Rightarrow> string" where
  "indicatorPrompt marketData =
     ''RSI='' @ toFixed 2 (rsi marketData) @ '', MACD='' @ toFixed 2 (macd marketData)
     @ '', Signal='' @ toFixed 2 (signal marketData)
     @ '', Volume='' @ showRat (volume marketData) @ '', Price='' @ showRat (price marketData)"

text \<open>The prompt handed to \<open>queryFLANT5\<close>, line by line as the template literal has it.\<close>

definition decisionPrompt :: "MarketData \<Rightarrow> string \<Rightarrow> rat \<Rightarrow> string" where
  "decisionPrompt marketData tapasAnswer sentimentScore =
     (let nl = [newline]; ind = ''      ''
      in ''Given the following information, should I buy, sell, or hold?'' @ nl
         @ ind @ nl
         @ ind @ ''Technical Indicators:'' @ nl
         @ ind @ ''- RSI: '' @ toFixed 2 (rsi marketData) @ nl
         @ ind @ ''- MACD: '' @ toFixed 2 (macd marketData) @ nl
         @ ind @ ''- Signal: '' @ toFixed 2 (signal marketData) @ nl
         @ ind @ ''- Current Price: '' @ showRat (price marketData) @ nl
         @ ind @ ''- Volume: '' @ showRat (volume marketData) @ nl
         @ ind @ nl
         @ ind @ ''Market Analysis:'' @ nl
         @ ind @ ''- '' @ tapasAnswer @ nl
         @ ind @ nl
         @ ind @ ''News Sentiment:'' @ nl
         @ ind @ ''- Sentiment Score: '' @ toFixed 2 sentimentScore
               @ '' (0=negative, 1=positive)'' @ nl
         @ ind @ nl
         @ ind @ ''Risk Level:'' @ nl
         @ ind @ ''- '' @ toFixed 2 (calculateRiskScore marketData sentimentScore)
               @ '' (0=low risk, 1=high risk)'' @ nl
         @ ind)"

text \<open>The narrative handed to the summarizer, without the closing decision sentence.\<close>

definition marketNarrative :: "MarketData \<Rightarrow> rat \<Rightarrow> string" where
  "marketNarrative marketData sentimentScore =
     ''Market Analysis: RSI is '' @ toFixed 2 (rsi marketData) @ '' which is ''
     @ (if rsi marketData > 70 then ''overbought''
        else if rsi marketData < 30 then ''oversold'' else ''neutral'') @ ''. ''
     @ ''MACD is '' @ (if macd marketData > signal marketData then ''above'' else ''below'')
     @ '' the signal line. ''
     @ ''The current price is '' @ showRat (price marketData) @ '' with a volume of ''
     @ showRat (volume marketData) @ ''. ''
     @ ''Recent news sentiment is ''
     @ (if sentimentScore > 6 / 10 then ''positive''
        else if sentimentScore < 4 / 10 then ''negative'' else ''neutral'') @ ''.''"

text \<open>
  \<open>reasoning && reasoning.includes("Fallback")\<close>, by its truth value: how the pipeline
  recognises that a query function answered from its local fallback.
\<close>

definition cameFromFallback :: "string \<Rightarrow> bool" where
  "cameFromFallback reasoning \<longleftrightarrow> reasoning \<noteq> [] \<and> includesStr reasoning ''Fallback''"

text \<open>
  \<open>analyzeSignals\<close>. With arguments of the declared types nothing in its body throws, since
  each query function catches its own failures; the \<open>catch\<close> blocks of the source (which
  rerun the local heuristic with the stage's flag set, and outermost return
  \<open>defaultResult\<close>) are not reached from such arguments.
\<close>

definition analyzeSignals ::
  "Engine \<Rightarrow> Remote \<Rightarrow> tableAnalysis \<Rightarrow> MarketData \<Rightarrow> NewsData \<Rightarrow> bool
     \<Rightarrow> ModelResults" where
  "analyzeSignals engine env intentAnalysis marketData newsData useFallback =
     (if useFallback then
        (let table = convertMarketDataToTable marketData;
             tapasResult = fallbackTableAnalysis intentAnalysis tapasQuery table;
             sentimentResult = fallbackSentimentAnalysis (newsText newsData);
             flantResult = fallbackDecisionMaking (indicatorPrompt marketData);
             bartResult = fallbackSummarization engine
               (marketNarrative marketData (score sentimentResult))
         in \<lparr>r_decision = decision flantResult,
             riskScore = calculateRiskScore marketData (score sentimentResult),
             tapasReasoning_r = t_reasoning tapasResult,
             sentimentReasoning = s_reasoning sentimentResult,
             decisionReasoning = d_reasoning flantResult,
             summaryReasoning = b_reasoning bartResult,
             tapasUsingFallback = True, sentimentUsingFallback = True,
             decisionUsingFallback = True, summaryUsingFallback = True\<rparr>)
      else
        (let table = convertMarketDataToTable marketData;
             tapasResult = queryTapas env intentAnalysis tapasQuery table;
             sentimentResult = queryDistilBERT env (newsText newsData);
             flantResult = queryFLANT5 env
               (decisionPrompt marketData (answer tapasResult) (score sentimentResult));
             bartResult = queryBART engine env
               (marketNarrative marketData (score sentimentResult)
                @ '' The trading decision is to '' @ decision flantResult @ ''.'')
         in \<lparr>r_decision = decision flantResult,
             riskScore = calculateRiskScore marketData (score sentimentResult),
             tapasReasoning_r = t_reasoning tapasResult,
             sentimentReasoning = s_reasoning sentimentResult,
             decisionReasoning = d_reasoning flantResult,
             summaryReasoning = b_reasoning bartResult,
             tapasUsingFallback = cameFromFallback (t_reasoning tapasResult),
             sentimentUsingFallback = cameFromFallback (s_reasoning sentimentResult),
             decisionUsingFallback = cameFromFallback (d_reasoning flantResult),
             summaryUsingFallback = cameFromFallback (b_reasoning bartResult)\<rparr>))"

definition mockMarketData :: MarketData where
  "mockMarketData = \<lparr>rsi = 55, macd = 2 / 10, signal = 1 / 10, volume = 1500000, price = 65000\<rparr>"

definition mockNewsData :: NewsData where
  "mockNewsData =
     \<lparr>headlines =
        [''Bitcoin shows strong momentum as institutional adoption increases'',
         ''Market analysts predict continued growth for major cryptocurrencies''],
      summaries =
        [''Institutional investors continue to show interest in Bitcoin, driving prices higher.'',
         ''Technical indicators suggest a bullish trend for Bitcoin in the coming weeks.'']\<rparr>"

record AnalysisResponse =
  a_symbol :: string
  a_action :: string
  a_risk :: rat
  modelResults :: ModelResults
  useFallback_r :: bool

text \<open>
  The route \<open>GET\<close>: \<open>symbolParam\<close> and \<open>fallbackParam\<close> are the query parameters \<open>symbol\<close> and
  \<open>fallback\<close> of the request, \<open>None\<close> when absent.
\<close>

definition GET ::
  "Engine \<Rightarrow> Remote \<Rightarrow> tableAnalysis \<Rightarrow> string option \<Rightarrow> string option
     \<Rightarrow> AnalysisResponse" where
  "GET engine env intentAnalysis symbolParam fallbackParam =
     (let symbol = (case symbolParam of Some s \<Rightarrow> if s = [] then ''BTCUSDT'' else s
                    | None \<Rightarrow> ''BTCUSDT'');
          useFallback = (fallbackParam = Some ''true'');
          results = analyzeSignals engine env intentAnalysis mockMarketData mockNewsData
                      useFallback
      in \<lparr>a_symbol = symbol, a_action = r_decision results, a_risk = riskScore results,
          modelResults = results,
          useFallback_r = (useFallback \<or> tapasUsingFallback results
                           \<or> sentimentUsingFallback results \<or> decisionUsingFallback results
                           \<or> summaryUsingFallback results)\<rparr>)"

text \<open>An environment without API token, in which every remote call fails.\<close>

definition offlineRemote :: Remote where
  "offlineRemote =
     \<lparr>hfApiToken = [], tapasPrimaryReply = None, tapasAlternativeReply = None,
      tapasLastResortReply = None, distilbertReply = None, deepseekHuggingFaceReply = None,
      deepseekApiReply = None, bartReply = None\<rparr>"

section \<open>Properties of the risk scorer\<close>

text \<open>
  C1. The risk score is the specified formula: 0.5, plus 0.1 when RSI is above 70 and minus
  0.1 when it is below 30, minus 0.05 when MACD is above the signal line and plus 0.05
  otherwise, plus 0.05 when the volume exceeds 1,000,000, plus (sentiment - 0.5) * 0.2,
  clamped to [0, 1]; on the snapshot of the scenario with neutral sentiment it is 0.6.
\<close>

theorem calculateRiskScore_formula:
  "calculateRiskScore md s =
     max 0 (min 1 (1 / 2
       + (if rsi md > 70 then 1 / 10 else if rsi md < 30 then - (1 / 10) else 0)
       + (if macd md > signal md then - (1 / 20) else 1 / 20)
       + (if volume md > 1000000 then 1 / 20 else 0)
       + (s - 1 / 2) * (1 / 5)))
   \<and> calculateRiskScore
         \<lparr>rsi = 75, macd = 1 / 10, signal = 1 / 20, volume = 2000000, price = 50000\<rparr> (1 / 2)
       = 6 / 10"
  by (simp add: calculateRiskScore_def Let_def)

section \<open>Properties of the performance tracker\<close>

lemma ext_simps [simp]:
  "p_modelType (PredictionInput.extend p (ModelPrediction.fields i)) = p_modelType p"
  "p_success (PredictionInput.extend p (ModelPrediction.fields i)) = p_success p"
  "p_id (PredictionInput.extend p (ModelPrediction.fields i)) = i"
  by (simp_all add: PredictionInput.defs ModelPrediction.defs)

lemma sliceLast_snoc: "sliceLast n (sliceLast n xs @ [x]) = sliceLast n (xs @ [x])"
  by (cases "length xs \<le> n") (auto simp: sliceLast_def Suc_diff_le)

lemma length_sliceLast: "length (sliceLast n xs) \<le> n"
  by (simp add: sliceLast_def)

lemma initializeStore_logs [simp]:
  "predictions (initializeStore s) = predictions s"
  "outcomes (initializeStore s) = outcomes s"
  by (simp_all add: initializeStore_def Let_def)

lemma initializeStore_metrics:
  "metrics (initializeStore s) = (if metrics s = [] then initializeMetrics else metrics s)"
  by (simp add: initializeStore_def Let_def)

lemma recordPrediction_predictions:
  "predictions (snd (recordPrediction s i p)) =
     sliceLast 1000 (predictions s @ [PredictionInput.extend p (ModelPrediction.fields i)])"
  by (auto simp: recordPrediction_def Let_def sliceLast_def split: option.splits)

lemma recordPrediction_outcomes:
  "outcomes (snd (recordPrediction s i p)) = outcomes s"
  by (auto simp: recordPrediction_def Let_def split: option.splits)

lemma recordOutcome_outcomes:
  "outcomes (recordOutcome s oc) = sliceLast 1000 (outcomes s @ [oc])"
  by (auto simp: recordOutcome_def Let_def sliceLast_def split: option.splits)

lemma recordOutcome_predictions:
  "predictions (recordOutcome s oc) = predictions s"
  by (auto simp: recordOutcome_def Let_def split: option.splits)

lemma updateConnectionStatus_logs:
  "predictions (updateConnectionStatus s st now) = predictions s"
  "outcomes (updateConnectionStatus s st now) = outcomes s"
  "metrics (updateConnectionStatus s st now) = metrics (initializeStore s)"
  by (simp_all add: updateConnectionStatus_def Let_def split: option.splits)

lemma recorded_snoc:
  "recordedPredictions (cs @ [c]) = notePrediction (recordedPredictions cs) c"
  "recordedOutcomes (cs @ [c]) = noteOutcome (recordedOutcomes cs) c"
  by (simp_all add: recordedPredictions_def recordedOutcomes_def)

lemma trackerRun_snoc: "trackerRun (cs @ [c]) = trackerStep (trackerRun cs) c"
  by (simp add: trackerRun_def)

lemma sliceLast_Nil: "sliceLast n [] = []"
  by (simp add: sliceLast_def)

lemma trackerRun_predictions:
  "predictions (trackerRun calls) = sliceLast 1000 (recordedPredictions calls)"
proof (induction calls rule: rev_induct)
  case Nil
  show ?case
    by (simp add: trackerRun_def serverStore0_def sliceLast_def recordedPredictions_def)
next
  case (snoc c cs)
  then show ?case
    by (cases c)
      (simp_all add: trackerRun_snoc recorded_snoc recordPrediction_predictions
        recordOutcome_predictions updateConnectionStatus_logs sliceLast_snoc sliceLast_Nil
        clearAllData_def)
qed

lemma trackerRun_outcomes:
  "outcomes (trackerRun calls) = sliceLast 1000 (recordedOutcomes calls)"
proof (induction calls rule: rev_induct)
  case Nil
  show ?case
    by (simp add: trackerRun_def serverStore0_def sliceLast_def recordedOutcomes_def)
next
  case (snoc c cs)
  then show ?case
    by (cases c)
      (simp_all add: trackerRun_snoc recorded_snoc recordPrediction_outcomes
        recordOutcome_outcomes updateConnectionStatus_logs sliceLast_snoc sliceLast_Nil
        clearAllData_def)
qed

lemma findIndex_Some:
  "findIndex P xs = Some i \<Longrightarrow> i < length xs \<and> P (xs ! i)"
  by (induction xs arbitrary: i) (auto split: if_splits)

lemma findIndex_None: "findIndex P xs = None \<Longrightarrow> x \<in> set xs \<Longrightarrow> \<not> P x"
  by (induction xs) (auto split: if_splits)

lemma distinct_models: "distinct models"
  by (simp add: models_def)

lemma metricsInv_other:
  assumes "map m_modelType ms = models" "i < length ms" "j < length ms" "i \<noteq> j"
  shows "m_modelType (ms ! i) \<noteq> m_modelType (ms ! j)"
proof -
  have "distinct (map m_modelType ms)" using assms(1) distinct_models by simp
  then show ?thesis
    using assms(2-4) by (simp add: distinct_conv_nth)
qed

lemma count_snoc_pred:
  "predictionCount t (cs @ [RecordPrediction i p]) =
     predictionCount t cs + (if p_modelType p = t then 1 else 0)"
  "successfulCount t (cs @ [RecordPrediction i p]) =
     successfulCount t cs + (if p_modelType p = t \<and> p_success p then 1 else 0)"
  by (simp_all add: predictionCount_def successfulCount_def recorded_snoc)

lemma count_snoc_same:
  "predictionCount t (cs @ [RecordOutcome oc]) = predictionCount t cs"
  "successfulCount t (cs @ [RecordOutcome oc]) = successfulCount t cs"
  "predictionCount t (cs @ [UpdateConnectionStatus st now]) = predictionCount t cs"
  "successfulCount t (cs @ [UpdateConnectionStatus st now]) = successfulCount t cs"
  by (simp_all add: predictionCount_def successfulCount_def recorded_snoc)

lemma count_snoc_clear:
  "predictionCount t (cs @ [ClearAllData]) = 0"
  "successfulCount t (cs @ [ClearAllData]) = 0"
  by (simp_all add: predictionCount_def successfulCount_def recorded_snoc)

lemma filter_conj_le: "length (filter (\<lambda>x. P x \<and> Q x) xs) \<le> length (filter P xs)"
  by (induction xs) auto

lemma successful_le: "successfulCount t cs \<le> predictionCount t cs"
  unfolding predictionCount_def successfulCount_def by (rule filter_conj_le)

lemma metricOK_update:
  assumes ok: "metricOK cs m" and t: "m_modelType m = p_modelType p"
  shows "metricOK (cs @ [RecordPrediction i p]) (updatedMetric m p)"
proof -
  let ?n = "predictionCount (p_modelType p) cs"
  let ?k = "successfulCount (p_modelType p) cs"
  have n: "totalPredictions m = ?n" using ok t by (simp add: metricOK_def)
  have sc: "successRate m * of_nat ?n = of_nat ?k"
  proof (cases "?n = 0")
    case True
    then have "?k = 0" using successful_le [of "p_modelType p" cs] by simp
    with True show ?thesis by simp
  next
    case False
    then have "successRate m = of_nat ?k / of_nat ?n"
      using ok t n by (simp add: metricOK_def)
    with False show ?thesis by simp
  qed
  show ?thesis
    using n sc t
    by (simp add: metricOK_def updatedMetric_def Let_def count_snoc_pred diff_divide_distrib
        add_divide_distrib)
qed

lemma updatedMetric_type [simp]: "m_modelType (updatedMetric m p) = m_modelType m"
  by (simp add: updatedMetric_def Let_def)

lemma map_update_same:
  "k < length xs \<Longrightarrow> f y = f (xs ! k) \<Longrightarrow> map f (xs[k := y]) = map f xs"
  by (induction xs arbitrary: k) (auto split: nat.splits)

lemma recordPrediction_metrics_eq:
  "metrics (snd (recordPrediction s i p)) =
     (case findIndex (\<lambda>m. m_modelType m = p_modelType p) (metrics (initializeStore s)) of
        None \<Rightarrow> metrics (initializeStore s)
      | Some k \<Rightarrow> (metrics (initializeStore s))
                     [k := updatedMetric (metrics (initializeStore s) ! k) p])"
  by (simp add: recordPrediction_def Let_def split: option.splits)

lemma metricOK_other:
  "metricOK cs m \<Longrightarrow> m_modelType m \<noteq> p_modelType p \<Longrightarrow>
   metricOK (cs @ [RecordPrediction i p]) m"
  by (auto simp: metricOK_def count_snoc_pred)

lemma metricOK_same:
  "metricOK cs m \<Longrightarrow> metricOK (cs @ [RecordOutcome oc]) (m\<lparr>accuracy := a\<rparr>)"
  "metricOK cs m \<Longrightarrow> metricOK (cs @ [RecordOutcome oc]) m"
  "metricOK cs m \<Longrightarrow> metricOK (cs @ [UpdateConnectionStatus st now]) m"
  by (auto simp: metricOK_def count_snoc_same)

lemma initializeMetrics_types: "map m_modelType initializeMetrics = models"
  by (simp add: initializeMetrics_def comp_def)

lemma metricsInv_init: "metricsInv [] initializeMetrics"
proof -
  have "\<forall>i < length initializeMetrics. metricOK [] (initializeMetrics ! i)"
    by (simp add: initializeMetrics_def metricOK_def predictionCount_def
        recordedPredictions_def)
  then show ?thesis by (simp add: metricsInv_def initializeMetrics_types)
qed

lemma metricsInv_clear: "metricsInv (cs @ [ClearAllData]) initializeMetrics"
proof -
  have "\<forall>i < length initializeMetrics.
          metricOK (cs @ [ClearAllData]) (initializeMetrics ! i)"
    by (simp add: initializeMetrics_def metricOK_def count_snoc_clear)
  then show ?thesis by (simp add: metricsInv_def initializeMetrics_types)
qed

lemma metricsInv_nonempty: "metricsInv cs ms \<Longrightarrow> ms \<noteq> []"
  by (auto simp: metricsInv_def models_def)

lemma recordPrediction_metrics:
  assumes inv: "metricsInv cs (metrics (initializeStore s))"
  shows "metricsInv (cs @ [RecordPrediction i p]) (metrics (snd (recordPrediction s i p)))"
proof -
  let ?ms = "metrics (initializeStore s)"
  have types: "map m_modelType ?ms = models" and
       oks: "\<And>j. j < length ?ms \<Longrightarrow> metricOK cs (?ms ! j)"
    using inv by (auto simp: metricsInv_def)
  show ?thesis
  proof (cases "findIndex (\<lambda>m. m_modelType m = p_modelType p) ?ms")
    case None
    have "p_modelType p \<in> set models" by (cases "p_modelType p") (simp_all add: models_def)
    then have "p_modelType p \<in> set (map m_modelType ?ms)" using types by simp
    then obtain m where "m \<in> set ?ms" "m_modelType m = p_modelType p" by auto
    then show ?thesis using findIndex_None [OF None] by blast
  next
    case (Some k)
    then have k: "k < length ?ms" "m_modelType (?ms ! k) = p_modelType p"
      using findIndex_Some [OF Some] by auto
    have res: "metrics (snd (recordPrediction s i p)) = ?ms[k := updatedMetric (?ms ! k) p]"
      by (simp add: recordPrediction_metrics_eq Some)
    have "map m_modelType (?ms[k := updatedMetric (?ms ! k) p]) = map m_modelType ?ms"
      using k(1) by (rule map_update_same) simp
    then have ty: "map m_modelType (?ms[k := updatedMetric (?ms ! k) p]) = models"
      using types by simp
    have "metricOK (cs @ [RecordPrediction i p]) (?ms[k := updatedMetric (?ms ! k) p] ! j)"
      if j: "j < length ?ms" for j
    proof (cases "j = k")
      case True
      then show ?thesis
        using metricOK_update [OF oks [OF k(1)] k(2)] k(1) by simp
    next
      case False
      then have "m_modelType (?ms ! j) \<noteq> p_modelType p"
        using metricsInv_other [OF types j k(1)] k(2) by simp
      then show ?thesis
        using False oks [OF j] by (simp add: metricOK_other)
    qed
    with ty show ?thesis
      unfolding res metricsInv_def by simp
  qed
qed

lemma recordOutcome_metrics_cases:
  "metrics (recordOutcome s oc) = metrics (initializeStore s) \<or>
   (\<exists>k a. k < length (metrics (initializeStore s)) \<and>
      metrics (recordOutcome s oc) =
        (metrics (initializeStore s))[k := (metrics (initializeStore s) ! k)\<lparr>accuracy := a\<rparr>])"
  by (auto simp: recordOutcome_def Let_def split: option.splits dest!: findIndex_Some)

lemma recordOutcome_metrics:
  assumes inv: "metricsInv cs (metrics (initializeStore s))"
  shows "metricsInv (cs @ [RecordOutcome oc]) (metrics (recordOutcome s oc))"
proof -
  let ?ms = "metrics (initializeStore s)"
  have types: "map m_modelType ?ms = models" and
       oks: "\<And>j. j < length ?ms \<Longrightarrow> metricOK cs (?ms ! j)"
    using inv by (auto simp: metricsInv_def)
  have same: "metricsInv (cs @ [RecordOutcome oc]) ?ms"
    using types oks by (simp add: metricsInv_def metricOK_same)
  have upd: "metricsInv (cs @ [RecordOutcome oc]) (?ms[k := (?ms ! k)\<lparr>accuracy := a\<rparr>])"
    if k: "k < length ?ms" for k a
  proof -
    have "map m_modelType (?ms[k := (?ms ! k)\<lparr>accuracy := a\<rparr>]) = map m_modelType ?ms"
      using k by (rule map_update_same) simp
    moreover have "metricOK (cs @ [RecordOutcome oc]) (?ms[k := (?ms ! k)\<lparr>accuracy := a\<rparr>] ! j)"
      if "j < length ?ms" for j
      using that oks [OF that] by (cases "j = k") (simp_all add: metricOK_same)
    ultimately show ?thesis using types by (simp add: metricsInv_def)
  qed
  show ?thesis
    using recordOutcome_metrics_cases [of s oc] same upd by auto
qed

lemma updateConnectionStatus_metrics:
  assumes "metricsInv cs (metrics (initializeStore s))"
  shows "metricsInv (cs @ [UpdateConnectionStatus st now])
           (metrics (updateConnectionStatus s st now))"
  using assms by (simp add: updateConnectionStatus_logs metricsInv_def metricOK_same)

lemma trackerStep_metrics:
  assumes "metricsInv cs (metrics (initializeStore s))"
  shows "metricsInv (cs @ [c]) (metrics (trackerStep s c))"
  using assms
  by (cases c)
    (simp_all add: recordPrediction_metrics recordOutcome_metrics
      updateConnectionStatus_metrics metricsInv_clear clearAllData_def)

lemma trackerRun_metrics: "metricsInv calls (metrics (initializeStore (trackerRun calls)))"
proof (induction calls rule: rev_induct)
  case Nil
  show ?case
    by (simp add: trackerRun_def serverStore0_def initializeStore_metrics metricsInv_init)
next
  case (snoc c cs)
  have inv: "metricsInv (cs @ [c]) (metrics (trackerRun (cs @ [c])))"
    using trackerStep_metrics [OF snoc] by (simp add: trackerRun_snoc)
  then have "metrics (trackerRun (cs @ [c])) \<noteq> []" by (rule metricsInv_nonempty)
  with inv show ?case by (simp add: initializeStore_metrics)
qed

lemma metricsInv_find:
  assumes "metricsInv calls ms"
  shows "\<exists>m. find (\<lambda>m. m_modelType m = t) ms = Some m \<and> m_modelType m = t \<and> metricOK calls m"
proof -
  have "t \<in> set models" by (cases t) (simp_all add: models_def)
  then have "t \<in> set (map m_modelType ms)" using assms by (simp add: metricsInv_def)
  then have "\<exists>x\<in>set ms. m_modelType x = t" by auto
  then obtain m where m: "find (\<lambda>m. m_modelType m = t) ms = Some m"
    by (cases "find (\<lambda>m. m_modelType m = t) ms") (auto simp: find_None_iff)
  then obtain i where "i < length ms" "m = ms ! i" "m_modelType m = t"
    by (auto simp: find_Some_iff)
  then show ?thesis using assms m by (auto simp: metricsInv_def)
qed

text \<open>
  C9. After every \<open>recordPrediction\<close> and \<open>recordOutcome\<close> (and every other call of the
  tracker), starting from the empty store, the prediction log and the outcome log hold at
  most 1,000 records each, and they are exactly the most recent 1,000 handed to the
  tracker since the data was last cleared, in insertion order.
\<close>

theorem tracker_logs_capped:
  "predictions (trackerRun calls) = sliceLast 1000 (recordedPredictions calls) \<and>
   outcomes (trackerRun calls) = sliceLast 1000 (recordedOutcomes calls) \<and>
   length (predictions (trackerRun calls)) \<le> 1000 \<and>
   length (outcomes (trackerRun calls)) \<le> 1000"
  by (simp add: trackerRun_predictions trackerRun_outcomes length_sliceLast)

text \<open>
  C10. With exact arithmetic, after any sequence of tracker calls from the empty store the
  metric of every capability counts the predictions recorded for it, and when that count
  is at least 1 its success rate and error rate add up to 1 and its success rate is the
  fraction of the recorded predictions of that capability that succeeded.
\<close>

theorem tracker_success_rate:
  "\<exists>m. getModelMetrics (trackerRun calls) t = Some m \<and>
        totalPredictions m = predictionCount t calls \<and>
        (1 \<le> totalPredictions m \<longrightarrow>
           successRate m + errorRate m = 1 \<and>
           successRate m = of_nat (successfulCount t calls) / of_nat (predictionCount t calls))"
  using metricsInv_find [OF trackerRun_metrics [of calls], of t]
  by (auto simp: getModelMetrics_def metricOK_def)

theorem tracker_success_rate_witness:
  "\<exists>m. getModelMetrics (trackerRun
          [RecordPrediction ''pred_1''
             \<lparr>p_timestamp = 1, p_modelType = flant5, p_input = ''x'', p_output = ''Success'',
              p_latency = 120, p_success = True, p_error = None\<rparr>,
           RecordPrediction ''pred_2''
             \<lparr>p_timestamp = 2, p_modelType = flant5, p_input = ''y'', p_output = ''Error: '',
              p_latency = 80, p_success = False, p_error = Some []\<rparr>]) flant5 = Some m \<and>
        totalPredictions m = 2 \<and> successRate m + errorRate m = 1 \<and> successRate m = 1 / 2"
  using tracker_success_rate [of
          "[RecordPrediction ''pred_1''
             \<lparr>p_timestamp = 1, p_modelType = flant5, p_input = ''x'', p_output = ''Success'',
              p_latency = 120, p_success = True, p_error = None\<rparr>,
           RecordPrediction ''pred_2''
             \<lparr>p_timestamp = 2, p_modelType = flant5, p_input = ''y'', p_output = ''Error: '',
              p_latency = 80, p_success = False, p_error = Some []\<rparr>]" flant5]
  by (auto simp: predictionCount_def successfulCount_def recordedPredictions_def)

section \<open>Properties of the execution gate\<close>

text \<open>
  C6. With an enabled policy and the action HOLD, the gate returns the failure "Action is
  HOLD, no trade executed" and calls no exchange method, whatever the symbol, the test
  mode and the risk state are: the HOLD check comes before those checks.
\<close>

theorem executeTrade_hold:
  assumes "enabled (config svc)"
  shows "executeTrade svc ex clock symbol ''HOLD'' confidence =
           (\<lparr>success = False, orderId = None,
             errorMessage = Some ''Action is HOLD, no trade executed'', order = None\<rparr>,
            [], svc)"
  using assms by (simp add: executeTrade_def failure_def)

theorem executeTrade_hold_witness:
  "executeTrade
     \<lparr>config = \<lparr>enabled = True, testMode = False,
                 riskParameters = \<lparr>maxPositionSize = 100, maxLeverage = 1, stopLossPercent = 2,
                   takeProfitPercent = 4, maxDailyLoss = 50, maxDrawdownPercent = 10\<rparr>,
                 allowedSymbols = [''BTCUSDT'']\<rparr>,
      dailyPnL = - 80, initialBalance = 1000, currentDrawdown = 0\<rparr>
     \<lparr>balancesForRiskCheck = Threw ''offline'', balancesForTrade = Threw ''offline'',
      currentPriceReply = (\<lambda>s. Threw ''offline''),
      marketOrderReply = (\<lambda>m. failure ''offline''),
      stopLossReply = (\<lambda>s. Threw ''offline''),
      takeProfitReply = (\<lambda>s. Threw ''offline'')\<rparr>
     (\<lambda>k. 1700000000000 + k) ''DOGEUSDT'' ''HOLD'' (1 / 2)
   = (\<lparr>success = False, orderId = None,
       errorMessage = Some ''Action is HOLD, no trade executed'', order = None\<rparr>,
      [],
      \<lparr>config = \<lparr>enabled = True, testMode = False,
                 riskParameters = \<lparr>maxPositionSize = 100, maxLeverage = 1, stopLossPercent = 2,
                   takeProfitPercent = 4, maxDailyLoss = 50, maxDrawdownPercent = 10\<rparr>,
                 allowedSymbols = [''BTCUSDT'']\<rparr>,
      dailyPnL = - 80, initialBalance = 1000, currentDrawdown = 0\<rparr>)"
  by (rule executeTrade_hold) simp

text \<open>
  C7. With an enabled policy, the action BUY or SELL, an allowed symbol and test mode on,
  the gate succeeds with an order id that starts with "test_" and a simulated market order
  for the symbol and side, filled (status FILLED, executed quantity equal to the
  quantity), and calls no exchange method.
\<close>

theorem executeTrade_testMode:
  assumes "enabled (config svc)" and "action = ''BUY'' \<or> action = ''SELL''"
    and "symbol \<in> set (allowedSymbols (config svc))" and "testMode (config svc)"
  shows "\<exists>r oid ord. executeTrade svc ex clock symbol action confidence = (r, [], svc) \<and>
           success r \<and> errorMessage r = None \<and>
           orderId r = Some oid \<and> take 5 oid = ''test_'' \<and>
           order r = Some ord \<and> ord_symbol ord = symbol \<and> ord_side ord = action \<and>
           ord_type ord = ''MARKET'' \<and> ord_status ord = ''FILLED'' \<and>
           ord_executedQty ord = ord_quantity ord"
  using assms by (auto simp: executeTrade_def)

theorem executeTrade_testMode_witness:
  "\<exists>r oid ord. executeTrade
     \<lparr>config = \<lparr>enabled = True, testMode = True,
                 riskParameters = \<lparr>maxPositionSize = 100, maxLeverage = 1, stopLossPercent = 2,
                   takeProfitPercent = 4, maxDailyLoss = 50, maxDrawdownPercent = 10\<rparr>,
                 allowedSymbols = [''BTCUSDT'']\<rparr>,
      dailyPnL = 0, initialBalance = 1000, currentDrawdown = 0\<rparr>
     \<lparr>balancesForRiskCheck = Threw ''offline'', balancesForTrade = Threw ''offline'',
      currentPriceReply = (\<lambda>s. Threw ''offline''),
      marketOrderReply = (\<lambda>m. failure ''offline''),
      stopLossReply = (\<lambda>s. Threw ''offline''),
      takeProfitReply = (\<lambda>s. Threw ''offline'')\<rparr>
     (\<lambda>k. 1700000000000 + k) ''BTCUSDT'' ''SELL'' (1 / 2)
     = (r, [], \<lparr>config = \<lparr>enabled = True, testMode = True,
                 riskParameters = \<lparr>maxPositionSize = 100, maxLeverage = 1, stopLossPercent = 2,
                   takeProfitPercent = 4, maxDailyLoss = 50, maxDrawdownPercent = 10\<rparr>,
                 allowedSymbols = [''BTCUSDT'']\<rparr>,
      dailyPnL = 0, initialBalance = 1000, currentDrawdown = 0\<rparr>) \<and>
     success r \<and> errorMessage r = None \<and>
     orderId r = Some oid \<and> take 5 oid = ''test_'' \<and>
     order r = Some ord \<and> ord_symbol ord = ''BTCUSDT'' \<and> ord_side ord = ''SELL'' \<and>
     ord_type ord = ''MARKET'' \<and> ord_status ord = ''FILLED'' \<and>
     ord_executedQty ord = ord_quantity ord"
  by (rule executeTrade_testMode) simp_all

section \<open>Properties of the decision fallback\<close>

lemma gt_lt_exclusive: "gt a b \<Longrightarrow> \<not> lt a b"
  by (auto simp: gt_def lt_def split: option.splits)

text \<open>
  C3. Whenever the risk extracted from the prompt is greater than 0.7, the decision
  fallback returns HOLD, whatever the prompt says about RSI, MACD, the signal line or the
  market conditions.
\<close>

theorem fallbackDecisionMaking_risk_override:
  assumes "gt (i_risk (extractIndicators (toLowerCase prompt))) (Some (7 / 10))"
  shows "decision (fallbackDecisionMaking prompt) = ''HOLD''"
  using assms by (simp add: fallbackDecisionMaking_def decide_def Let_def)

theorem fallbackDecisionMaking_risk_override_witness:
  "extractIndicators (toLowerCase ''RSI: 20, MACD: 0.5, Signal: 0.1, risk: 0.9, bullish uptrend'')
     = \<lparr>i_rsi = Some 20, i_macd = Some (1 / 2), i_signal = Some (1 / 10),
        i_risk = Some (9 / 10)\<rparr>
   \<and> decision (fallbackDecisionMaking
         ''RSI: 20, MACD: 0.5, Signal: 0.1, risk: 0.9, bullish uptrend'') = ''HOLD''"
proof -
  have e: "extractIndicators
             (toLowerCase ''RSI: 20, MACD: 0.5, Signal: 0.1, risk: 0.9, bullish uptrend'')
           = \<lparr>i_rsi = Some 20, i_macd = Some (1 / 2), i_signal = Some (1 / 10),
              i_risk = Some (9 / 10)\<rparr>"
    by code_simp
  have "gt (i_risk (extractIndicators
          (toLowerCase ''RSI: 20, MACD: 0.5, Signal: 0.1, risk: 0.9, bullish uptrend'')))
          (Some (7 / 10))"
    unfolding e by (simp add: gt_def)
  from fallbackDecisionMaking_risk_override [OF this] e show ?thesis by simp
qed

text \<open>
  C4, as the source has it. The cascade is evaluated in the fixed order risk, RSI, MACD,
  market conditions, default, and the first rule that fires decides. Its MACD rule is
  narrower than "above" and "below" the signal line: BUY needs MACD positive and above
  the signal line with risk below 0.5, SELL needs MACD negative and below the signal
  line.
\<close>

theorem fallbackDecisionMaking_cascade:
  "decision (fallbackDecisionMaking prompt) =
     (let ind = extractIndicators (toLowerCase prompt);
          mc = detectConditions (toLowerCase prompt)
      in if gt (i_risk ind) (Some (7 / 10)) then ''HOLD''
         else if gt (i_rsi ind) (Some 70) then ''SELL''
         else if lt (i_rsi ind) (Some 30) then ''BUY''
         else if gt (i_macd ind) (Some 0) \<and> gt (i_macd ind) (i_signal ind)
                 \<and> lt (i_risk ind) (Some (1 / 2)) then ''BUY''
         else if lt (i_macd ind) (Some 0) \<and> lt (i_macd ind) (i_signal ind) then ''SELL''
         else if volatile mc \<and> gt (i_risk ind) (Some (1 / 2)) then ''HOLD''
         else if uptrend mc \<and> lt (i_risk ind) (Some (6 / 10)) then ''BUY''
         else if downtrend mc then ''SELL''
         else ''HOLD'')"
  using gt_lt_exclusive [of "i_macd (extractIndicators (toLowerCase prompt))" "Some 0"]
  by (simp add: fallbackDecisionMaking_def decide_def Let_def)

text \<open>
  With plain "above" and "below" the property fails. With MACD -0.1 above the signal line -0.2, risk 0.3 and the
  default RSI 50, the result is HOLD, not BUY; with MACD 0.1 below the signal line 0.2 it
  is HOLD, not SELL.
\<close>

theorem fallbackDecisionMaking_macd_counterexample:
  "extractIndicators (toLowerCase ''macd: -0.1 signal: -0.2 risk: 0.3'')
     = \<lparr>i_rsi = Some 50, i_macd = Some (- (1 / 10)), i_signal = Some (- (1 / 5)),
        i_risk = Some (3 / 10)\<rparr>
   \<and> gt (i_macd (extractIndicators (toLowerCase ''macd: -0.1 signal: -0.2 risk: 0.3'')))
        (i_signal (extractIndicators (toLowerCase ''macd: -0.1 signal: -0.2 risk: 0.3'')))
   \<and> lt (i_risk (extractIndicators (toLowerCase ''macd: -0.1 signal: -0.2 risk: 0.3'')))
        (Some (1 / 2))
   \<and> decision (fallbackDecisionMaking ''macd: -0.1 signal: -0.2 risk: 0.3'') = ''HOLD''
   \<and> decision (fallbackDecisionMaking ''macd: -0.1 signal: -0.2 risk: 0.3'') \<noteq> ''BUY''
   \<and> extractIndicators (toLowerCase ''macd: 0.1 signal: 0.2 risk: 0.3'')
     = \<lparr>i_rsi = Some 50, i_macd = Some (1 / 10), i_signal = Some (1 / 5),
        i_risk = Some (3 / 10)\<rparr>
   \<and> lt (i_macd (extractIndicators (toLowerCase ''macd: 0.1 signal: 0.2 risk: 0.3'')))
        (i_signal (extractIndicators (toLowerCase ''macd: 0.1 signal: 0.2 risk: 0.3'')))
   \<and> decision (fallbackDecisionMaking ''macd: 0.1 signal: 0.2 risk: 0.3'') = ''HOLD''
   \<and> decision (fallbackDecisionMaking ''macd: 0.1 signal: 0.2 risk: 0.3'') \<noteq> ''SELL''"
proof -
  have a: "extractIndicators (toLowerCase ''macd: -0.1 signal: -0.2 risk: 0.3'')
     = \<lparr>i_rsi = Some 50, i_macd = Some (- (1 / 10)), i_signal = Some (- (1 / 5)),
        i_risk = Some (3 / 10)\<rparr>"
    by code_simp
  have b: "extractIndicators (toLowerCase ''macd: 0.1 signal: 0.2 risk: 0.3'')
     = \<lparr>i_rsi = Some 50, i_macd = Some (1 / 10), i_signal = Some (1 / 5),
        i_risk = Some (3 / 10)\<rparr>"
    by code_simp
  have c: "decision (fallbackDecisionMaking ''macd: -0.1 signal: -0.2 risk: 0.3'') = ''HOLD''"
    by code_simp
  have d: "decision (fallbackDecisionMaking ''macd: 0.1 signal: 0.2 risk: 0.3'') = ''HOLD''"
    by code_simp
  show ?thesis
    unfolding a b c d by (simp add: gt_def lt_def)
qed

section \<open>Properties of the summarization fallback\<close>


text \<open>A sentence has at least one word, so that the division of its score is defined.\<close>

lemma splitRuns_nonempty: "splitRuns sep cur inRun s \<noteq> []"
  by (induction s arbitrary: cur inRun) simp_all

lemma wordsOf_nonempty: "wordsOf s \<noteq> []"
  by (simp add: wordsOf_def splitOn_def splitRuns_nonempty)

subsection \<open>The word-frequency object of a text without inherited names\<close>










subsection \<open>The score of a sentence is its relevance\<close>








subsection \<open>The selection\<close>








section \<open>Properties of the pipeline\<close>

lemma calculateRiskScore_range:
  "0 \<le> calculateRiskScore marketData sentimentScore
   \<and> calculateRiskScore marketData sentimentScore \<le> 1"
  by (simp add: calculateRiskScore_def Let_def)

lemma decide_decision: "decision (decide ind mc reasoning) \<in> {''BUY'', ''SELL'', ''HOLD''}"
  by (simp add: decide_def Let_def)

lemma fallbackDecisionMaking_decision:
  "decision (fallbackDecisionMaking prompt) \<in> {''BUY'', ''SELL'', ''HOLD''}"
  unfolding fallbackDecisionMaking_def Let_def by (rule decide_decision)

lemma parseDecision_decision:
  "decision (parseDecision content) \<in> {''BUY'', ''SELL'', ''HOLD''}"
  by (simp add: parseDecision_def Let_def)

lemma queryFLANT5_decision:
  "decision (queryFLANT5 env prompt) \<in> {''BUY'', ''SELL'', ''HOLD''}"
  by (simp add: queryFLANT5_def queryDeepSeek_def fallbackDecisionMaking_decision
      parseDecision_decision split: option.splits del: insert_iff)

text \<open>
  C5. For every market snapshot, news input, environment and mode, the risk score the
  pipeline returns lies in [0, 1] and its decision is BUY, SELL or HOLD; the same holds
  for the default result of the internal-error path.
\<close>

theorem analyzeSignals_result_range:
  "0 \<le> riskScore (analyzeSignals engine env intentAnalysis marketData newsData useFallback)
   \<and> riskScore (analyzeSignals engine env intentAnalysis marketData newsData useFallback) \<le> 1
   \<and> r_decision (analyzeSignals engine env intentAnalysis marketData newsData useFallback)
       \<in> {''BUY'', ''SELL'', ''HOLD''}
   \<and> 0 \<le> riskScore defaultResult \<and> riskScore defaultResult \<le> 1
   \<and> r_decision defaultResult \<in> {''BUY'', ''SELL'', ''HOLD''}"
proof -
  have "r_decision (analyzeSignals engine env intentAnalysis marketData newsData useFallback)
          \<in> {''BUY'', ''SELL'', ''HOLD''}"
    by (simp add: analyzeSignals_def Let_def queryFLANT5_decision fallbackDecisionMaking_decision
        del: insert_iff)
  moreover have "0 \<le> riskScore (analyzeSignals engine env intentAnalysis marketData newsData useFallback)
     \<and> riskScore (analyzeSignals engine env intentAnalysis marketData newsData useFallback) \<le> 1"
    using calculateRiskScore_range by (simp add: analyzeSignals_def Let_def)
  ultimately show ?thesis by (simp add: defaultResult_def)
qed

text \<open>
  The overall flag of the route is the disjunction of the four flags the pipeline
  recorded: in forced fallback mode all four are set.
\<close>

lemma GET_useFallback_disjunction:
  "useFallback_r (GET engine env intentAnalysis symbolParam fallbackParam) \<longleftrightarrow>
     tapasUsingFallback (modelResults (GET engine env intentAnalysis symbolParam fallbackParam))
     \<or> sentimentUsingFallback (modelResults (GET engine env intentAnalysis symbolParam fallbackParam))
     \<or> decisionUsingFallback (modelResults (GET engine env intentAnalysis symbolParam fallbackParam))
     \<or> summaryUsingFallback (modelResults (GET engine env intentAnalysis symbolParam fallbackParam))"
  by (auto simp: GET_def Let_def analyzeSignals_def)

lemma offline_queries:
  "queryTapas offlineRemote intentAnalysis query table
     = fallbackTableAnalysis intentAnalysis query table"
  "queryDistilBERT offlineRemote text = fallbackSentimentAnalysis text"
  "queryFLANT5 offlineRemote prompt = fallbackDecisionMaking prompt"
  "queryBART engine offlineRemote text = fallbackSummarization engine text"
  by (simp_all add: queryTapas_def queryDistilBERT_def queryFLANT5_def queryDeepSeek_def
      queryBART_def queryHuggingFace_def offlineRemote_def)

lemma tapasQuery_no_intent: "hasIntent (toLowerCase tapasQuery) = False"
  by code_simp

lemma tapasQuery_default:
  "fallbackTableAnalysis intentAnalysis tapasQuery table = defaultTableResult"
  by (simp add: fallbackTableAnalysis_def tapasQuery_no_intent)

lemma mock_sentiment_score: "score (fallbackSentimentAnalysis (newsText mockNewsData)) = 1"
  by code_simp

lemma mock_decision:
  "decision (fallbackDecisionMaking (decisionPrompt mockMarketData ''HOLD'' 1)) = ''HOLD''"
  by code_simp

lemma mock_unflagged:
  "cameFromFallback (t_reasoning defaultTableResult) = False"
  "cameFromFallback (s_reasoning (fallbackSentimentAnalysis (newsText mockNewsData))) = False"
  "cameFromFallback
     (d_reasoning (fallbackDecisionMaking (decisionPrompt mockMarketData ''HOLD'' 1))) = False"
  "cameFromFallback
     (b_reasoning (fallbackSummarization engine
        (marketNarrative mockMarketData 1 @ '' The trading decision is to HOLD.''))) = False"
  by code_simp+

lemma offline_results:
  "analyzeSignals engine offlineRemote intentAnalysis mockMarketData mockNewsData False =
     \<lparr>r_decision = ''HOLD'',
      riskScore = calculateRiskScore mockMarketData 1,
      tapasReasoning_r = t_reasoning defaultTableResult,
      sentimentReasoning = s_reasoning (fallbackSentimentAnalysis (newsText mockNewsData)),
      decisionReasoning =
        d_reasoning (fallbackDecisionMaking (decisionPrompt mockMarketData ''HOLD'' 1)),
      summaryReasoning =
        b_reasoning (fallbackSummarization engine
          (marketNarrative mockMarketData 1 @ '' The trading decision is to HOLD.'')),
      tapasUsingFallback = False, sentimentUsingFallback = False,
      decisionUsingFallback = False, summaryUsingFallback = False\<rparr>"
proof -
  have ans: "answer defaultTableResult = ''HOLD''"
    by (simp add: defaultTableResult_def)
  show ?thesis
    unfolding analyzeSignals_def Let_def offline_queries tapasQuery_default ans
      mock_sentiment_score mock_decision
    by (simp add: mock_unflagged)
qed

text \<open>
  C2, at a failing input. Without an API token every remote call of the four stages
  fails and each stage answers from its local fallback (the four reasonings are those of
  \<open>fallbackTableAnalysis\<close>, \<open>fallbackSentimentAnalysis\<close>, \<open>fallbackDecisionMaking\<close> and
  \<open>fallbackSummarization\<close>), yet none of the four per-stage flags is set and the overall
  flag of the route is false: the texts of the fallbacks do not contain the marker
  "Fallback" the pipeline looks for.
\<close>

theorem GET_offline_reports_no_fallback:
  "tapasReasoning_r (modelResults (GET engine offlineRemote intentAnalysis None None))
     = t_reasoning (fallbackTableAnalysis intentAnalysis tapasQuery
         (convertMarketDataToTable mockMarketData))
   \<and> sentimentReasoning (modelResults (GET engine offlineRemote intentAnalysis None None))
     = s_reasoning (fallbackSentimentAnalysis (newsText mockNewsData))
   \<and> decisionReasoning (modelResults (GET engine offlineRemote intentAnalysis None None))
     = d_reasoning (fallbackDecisionMaking (decisionPrompt mockMarketData ''HOLD'' 1))
   \<and> summaryReasoning (modelResults (GET engine offlineRemote intentAnalysis None None))
     = b_reasoning (fallbackSummarization engine
         (marketNarrative mockMarketData 1 @ '' The trading decision is to HOLD.''))
   \<and> tapasUsingFallback (modelResults (GET engine offlineRemote intentAnalysis None None)) = False
   \<and> sentimentUsingFallback (modelResults (GET engine offlineRemote intentAnalysis None None)) = False
   \<and> decisionUsingFallback (modelResults (GET engine offlineRemote intentAnalysis None None)) = False
   \<and> summaryUsingFallback (modelResults (GET engine offlineRemote intentAnalysis None None)) = False
   \<and> useFallback_r (GET engine offlineRemote intentAnalysis None None) = False"
  by (simp add: GET_def Let_def offline_results tapasQuery_default)

end
